theory Spec2Isabelle
  imports Main "HOL-Library.Word"
begin

section \<open>Wire frames (pkg/tunnel/tunnel.proto)\<close>

text \<open>
  Byte slices and Go strings are both lists of bytes, written \<open>string\<close>. The protobuf
  scalar types \<open>int32\<close> and \<open>int64\<close> are 32- and 64-bit words read as signed
  numbers with \<open>sint\<close>.
\<close>

type_synonym bytes = string

datatype HttpHeader = HttpHeader (hdrName: string) (hdrValues: "string list")

record HttpRequest =
  reqId :: string
  reqName :: string
  reqType :: string
  reqMethod :: string
  reqURI :: string
  reqHeaders :: "HttpHeader list"
  reqBody :: bytes

record HttpResponse =
  respId :: string
  Status :: "32 word"
  Headers :: "HttpHeader list"
  ContentLength :: "64 word"

record HttpChunkedResponse =
  chunkId :: string
  chunkBody :: bytes

datatype ChannelDirection = STDIN | STDOUT | STDERR

record CommandRequest =
  cmdId :: string
  cmdName :: string
  Arguments :: "string list"
  Environment :: "string list"

record CommandData =
  dataId :: string
  dataBody :: bytes
  Channel :: ChannelDirection
  Closed :: bool

record CommandTermination =
  termId :: string
  ExitCode :: "32 word"
  Message :: string

record EndpointHealth =
  ehName :: string
  ehType :: string
  ehConfigured :: bool
  ehNamespaces :: "string list"

record AgentHello =
  helloEndpoints :: "EndpointHealth list"
  helloVersion :: string
  helloHostname :: string

text \<open>
  The \<open>oneof event\<close> of \<open>AgentToControllerWrapper\<close>; the last constructor is the
  wrapper whose \<open>Event\<close> is nil.
\<close>

datatype AgentToControllerWrapper =
    AgentToControllerWrapper_PingRequest "64 word"
  | AgentToControllerWrapper_HttpResponse HttpResponse
  | AgentToControllerWrapper_HttpChunkedResponse HttpChunkedResponse
  | AgentToControllerWrapper_AgentHello AgentHello
  | AgentToControllerWrapper_CommandData CommandData
  | AgentToControllerWrapper_CommandTermination CommandTermination
  | AgentToControllerWrapper_nil

text \<open>
  What a receive \<open>in, more := <-ch\<close> yields: a value, or the closed channel
  (\<open>more = false\<close>). A mailbox is the list of these in arrival order; when the list is
  used up the receiver stays blocked.
\<close>

datatype 'a recv = Recv 'a | ChanClosed

section \<open>The inbound response writer and header maps (net/http)\<close>

text \<open>
  \<open>http.Header\<close> is a map from canonical key to the list of its values, kept here as
  an association list with one entry per key. \<open>Add\<close> and \<open>Del\<close> canonicalise the key
  with \<open>textproto.CanonicalMIMEHeaderKey\<close>: a key made of header-token bytes only gets
  an upper-case letter at the start and after each hyphen and lower case elsewhere; any
  other key is left as it is.
\<close>

type_synonym Header = "(string \<times> string list) list"

definition between :: "char \<Rightarrow> char \<Rightarrow> char \<Rightarrow> bool" where
  "between lo hi c = ((of_char lo :: nat) \<le> of_char c \<and> (of_char c :: nat) \<le> of_char hi)"

definition validHeaderFieldByte :: "char \<Rightarrow> bool" where
  "validHeaderFieldByte c =
     (between CHR ''a'' CHR ''z'' c \<or> between CHR ''A'' CHR ''Z'' c \<or> between CHR ''0'' CHR ''9'' c
      \<or> c \<in> set ''!#$%&*+-.^_`|~'' \<or> c = CHR 0x27)"

definition toUpper :: "char \<Rightarrow> char" where
  "toUpper c = (if between CHR ''a'' CHR ''z'' c then char_of (of_char c - (32::nat)) else c)"

definition toLower :: "char \<Rightarrow> char" where
  "toLower c = (if between CHR ''A'' CHR ''Z'' c then char_of (of_char c + (32::nat)) else c)"

fun canonicalCase :: "bool \<Rightarrow> string \<Rightarrow> string" where
  "canonicalCase upper [] = []"
| "canonicalCase upper (c # cs) =
     (let c' = (if upper then toUpper c else toLower c)
      in c' # canonicalCase (c' = CHR ''-'') cs)"

definition CanonicalMIMEHeaderKey :: "string \<Rightarrow> string" where
  "CanonicalMIMEHeaderKey s =
     (if list_all validHeaderFieldByte s then canonicalCase True s else s)"

fun appendValue :: "Header \<Rightarrow> string \<Rightarrow> string \<Rightarrow> Header" where
  "appendValue [] k v = [(k, [v])]"
| "appendValue ((k0, vs) # h) k v =
     (if k0 = k then (k0, vs @ [v]) # h else (k0, vs) # appendValue h k v)"

definition Header_Add :: "Header \<Rightarrow> string \<Rightarrow> string \<Rightarrow> Header" where
  "Header_Add h key v = appendValue h (CanonicalMIMEHeaderKey key) v"

definition Header_Del :: "Header \<Rightarrow> string \<Rightarrow> Header" where
  "Header_Del h key = filter (\<lambda>(k0, vs). k0 \<noteq> CanonicalMIMEHeaderKey key) h"

text \<open>
  \<open>http.ResponseWriter\<close> as the server of net/http implements it (Dockerfile.multi
  builds with Go 1.15.6): \<open>Header()\<close> is the header map that \<open>WriteHeader\<close> will send;
  \<open>WriteHeader\<close> sends the status line and the header map as it is at that moment; a
  later call only logs and changes nothing; a first call with a code below 100 or above
  999 panics. \<open>Write\<close> (and \<open>Flush\<close>) first call \<open>WriteHeader(http.StatusOK)\<close> when no
  header has been written yet. \<open>wHeader\<close> is the live map, \<open>sentHeader\<close> the map that
  went out with the status, \<open>written\<close> the body writes and flushes the handler made, in
  order.
\<close>

datatype wevent = Write bytes | Flush

record ResponseWriter =
  wHeader :: Header
  wroteHeader :: bool
  statusCode :: int
  sentHeader :: Header
  written :: "wevent list"

definition newResponseWriter :: ResponseWriter where
  "newResponseWriter =
     \<lparr>wHeader = [], wroteHeader = False, statusCode = 0, sentHeader = [], written = []\<rparr>"

definition StatusOK :: int where "StatusOK = 200"
definition StatusBadRequest :: int where "StatusBadRequest = 400"
definition StatusForbidden :: int where "StatusForbidden = 403"
definition StatusMethodNotAllowed :: int where "StatusMethodNotAllowed = 405"
definition StatusBadGateway :: int where "StatusBadGateway = 502"

definition sendHeader :: "ResponseWriter \<Rightarrow> int \<Rightarrow> ResponseWriter" where
  "sendHeader w code = w\<lparr>wroteHeader := True, statusCode := code, sentHeader := wHeader w\<rparr>"

text \<open>\<open>None\<close> is the panic of \<open>checkWriteHeaderCode\<close>.\<close>

definition WriteHeader :: "ResponseWriter \<Rightarrow> int \<Rightarrow> ResponseWriter option" where
  "WriteHeader w code =
     (if wroteHeader w then Some w
      else if code < 100 \<or> code > 999 then None
      else Some (sendHeader w code))"

definition Write_rw :: "ResponseWriter \<Rightarrow> bytes \<Rightarrow> ResponseWriter" where
  "Write_rw w b =
     (let w1 = (if wroteHeader w then w else sendHeader w StatusOK)
      in w1\<lparr>written := written w1 @ [Write b]\<rparr>)"

definition Flush_rw :: "ResponseWriter \<Rightarrow> ResponseWriter" where
  "Flush_rw w =
     (let w1 = (if wroteHeader w then w else sendHeader w StatusOK)
      in w1\<lparr>written := written w1 @ [Flush]\<rparr>)"

text \<open>
  The server passes the handler's body writes on as they are only when the response may
  carry a body of undeclared length: it drops them for a HEAD request, refuses them for a
  status without body (\<open>bodyAllowedForStatus\<close>: 1xx, 204, 304) and refuses what goes
  beyond a \<open>Content-Length\<close> found in the header map. \<open>Write_rw\<close> does not model these
  three rules; \<open>carriesBody\<close> says that none of them applies to the response an
  \<open>HttpResponse\<close> frame asks for on a fresh writer.
\<close>

definition bodyAllowedForStatus :: "int \<Rightarrow> bool" where
  "bodyAllowedForStatus status =
     (if 100 \<le> status \<and> status \<le> 199 then False
      else if status = 204 then False
      else if status = 304 then False
      else True)"

fun bodyOf :: "wevent list \<Rightarrow> bytes" where
  "bodyOf [] = []"
| "bodyOf (Write b # es) = b @ bodyOf es"
| "bodyOf (Flush # es) = bodyOf es"

section \<open>Identity (app/controller/service_server.go)\<close>

text \<open>
  Modelled from the spec: package \<open>pkg/ca\<close> (the type \<open>CertificateName\<close>, its purpose
  constants and \<open>GetCertificateNameFromCert\<close>) is not under src/. The purpose is one of
  agent, service and control (spec 3). A peer certificate is represented by what
  \<open>GetCertificateNameFromCert\<close> makes of it: the structured name its CN encodes, or the
  error for a CN outside the schema (spec 4.2, \<open>ParseCertName\<close>).
\<close>

datatype CertificatePurpose =
  CertificatePurposeAgent | CertificatePurposeService | CertificatePurposeControl

record CertificateName =
  Name :: string
  Type :: string
  Agent :: string
  Purpose :: CertificatePurpose

datatype Certificate = Certificate (parsedName: "string + CertificateName")

definition GetCertificateNameFromCert :: "Certificate \<Rightarrow> string + CertificateName" where
  "GetCertificateNameFromCert cert = parsedName cert"

text \<open>
  The inbound \<open>*http.Request\<close>: \<open>PeerCertificates\<close> is \<open>r.TLS.PeerCertificates\<close>,
  \<open>BasicAuth\<close> is what \<open>r.BasicAuth()\<close> returns (user name and password, \<open>None\<close> when
  \<open>ok\<close> is false), \<open>rBody\<close> the bytes \<open>ioutil.ReadAll(r.Body)\<close> reads.
\<close>

record Request =
  Method :: string
  RequestURI :: string
  rHeader :: Header
  rBody :: bytes
  PeerCertificates :: "Certificate list"
  BasicAuth :: "(string \<times> string) option"

definition extractEndpointFromCert :: "Request \<Rightarrow> string \<times> string \<times> string \<times> bool" where
  "extractEndpointFromCert r =
     (case PeerCertificates r of
        [] \<Rightarrow> ([], [], [], False)
      | cert # certs \<Rightarrow>
          (case GetCertificateNameFromCert cert of
             Inl err \<Rightarrow> ([], [], [], False)
           | Inr names \<Rightarrow>
               if Purpose names \<noteq> CertificatePurposeService then ([], [], [], False)
               else (Agent names, Type names, Name names, True)))"

text \<open>
  \<open>ValidateJWT\<close> is not under src/; it is the parameter \<open>validateJWT\<close>, applied to the
  Basic-auth password (the key set is fixed in it) and returning
  \<open>(endpointType, endpointName, agentIdentity)\<close> or the error.
\<close>

definition extractEndpointFromJWT ::
  "(string \<Rightarrow> string + string \<times> string \<times> string) \<Rightarrow> Request \<Rightarrow> string \<times> string \<times> string \<times> bool"
where
  "extractEndpointFromJWT validateJWT r =
     (case BasicAuth r of
        None \<Rightarrow> ([], [], [], False)
      | Some (user, authPassword) \<Rightarrow>
          (case validateJWT authPassword of
             Inl err \<Rightarrow> ([], [], [], False)
           | Inr (endpointType, endpointName, agentIdentity) \<Rightarrow>
               (agentIdentity, endpointType, endpointName, True)))"

definition extractEndpoint ::
  "(string \<Rightarrow> string + string \<times> string \<times> string) \<Rightarrow> Request \<Rightarrow> string + string \<times> string \<times> string"
where
  "extractEndpoint validateJWT r =
     (case extractEndpointFromCert r of
        (agentIdentity, endpointType, endpointName, found) \<Rightarrow>
          if found then Inr (agentIdentity, endpointType, endpointName)
          else (case extractEndpointFromJWT validateJWT r of
                  (agentIdentity, endpointType, endpointName, found) \<Rightarrow>
                    if found then Inr (agentIdentity, endpointType, endpointName)
                    else Inl ''no valid credentials or JWT found''))"

section \<open>The HTTP request adapter (app/controller/service_server.go)\<close>

record AgentSearch =
  asName :: string
  EndpointType :: string
  EndpointName :: string
  Session :: string

definition makeHeaders :: "Header \<Rightarrow> HttpHeader list" where
  "makeHeaders headers =
     map (\<lambda>(name, values). HttpHeader name values)
       (filter (\<lambda>(name, values). name \<noteq> ''Accept-Encoding'') headers)"

text \<open>
  What a handler leaves behind: the response writer, the request's header map (the loop
  deletes from it), the requests handed to \<open>agents.Send\<close>, the flag \<open>cleanClose\<close>,
  whether the handler has returned, and whether it has panicked (neither: it is blocked
  receiving from \<open>message.Out\<close>).
\<close>

record handled =
  rw :: ResponseWriter
  reqHeader :: Header
  dispatched :: "(AgentSearch \<times> HttpRequest) list"
  cleanClose :: bool
  returned :: bool
  panicked :: bool

definition finish :: "ResponseWriter \<Rightarrow> Header \<Rightarrow> (AgentSearch \<times> HttpRequest) list \<Rightarrow> bool \<Rightarrow> handled" where
  "finish w rh sent clean =
     \<lparr>rw = w, reqHeader = rh, dispatched = sent, cleanClose = clean, returned = True,
      panicked = False\<rparr>"

definition panic :: "ResponseWriter \<Rightarrow> Header \<Rightarrow> (AgentSearch \<times> HttpRequest) list \<Rightarrow> handled" where
  "panic w rh sent =
     \<lparr>rw = w, reqHeader = rh, dispatched = sent, cleanClose = False, returned = False,
      panicked = True\<rparr>"

text \<open>
  The \<open>for\<close> loop of \<open>runAPIHandler\<close> (lines 138 to 190), with its variables
  \<open>seenHeader\<close>, \<open>isChunked\<close>, the writer \<open>w\<close> and the header map of \<open>r\<close> as arguments.
  The loop of \<open>kubernetesAPIHandler\<close> (controller.go, lines 141 to 193) is the same
  text, statement by statement, on the channel \<open>message.out\<close>.
\<close>

definition copyHeaders :: "HttpHeader list \<Rightarrow> Header \<Rightarrow> Header" where
  "copyHeaders hs h =
     fold (\<lambda>header h1. fold (\<lambda>v h2. Header_Add h2 (hdrName header) v) (hdrValues header) h1) hs h"

fun runAPIHandler_loop ::
  "bool \<Rightarrow> bool \<Rightarrow> ResponseWriter \<Rightarrow> Header \<Rightarrow> (AgentSearch \<times> HttpRequest) list
     \<Rightarrow> AgentToControllerWrapper recv list \<Rightarrow> handled"
where
  "runAPIHandler_loop seenHeader isChunked w rh sent [] =
     \<lparr>rw = w, reqHeader = rh, dispatched = sent, cleanClose = False, returned = False,
      panicked = False\<rparr>"
| "runAPIHandler_loop seenHeader isChunked w rh sent (ChanClosed # rest) =
     (if \<not> seenHeader
      then (case WriteHeader w StatusBadGateway of
              None \<Rightarrow> panic w rh sent
            | Some w1 \<Rightarrow> finish w1 rh sent True)
      else finish w rh sent True)"
| "runAPIHandler_loop seenHeader isChunked w rh sent (Recv x # rest) =
     (case x of
        AgentToControllerWrapper_HttpResponse resp \<Rightarrow>
          (let rh1 = fold (\<lambda>name h. Header_Del h name) (map fst (wHeader w)) rh;
               w1 = w\<lparr>wHeader := copyHeaders (Headers resp) (wHeader w)\<rparr>
           in case WriteHeader w1 (sint (Status resp)) of
                None \<Rightarrow> panic w1 rh1 sent
              | Some w2 \<Rightarrow>
                  if ContentLength resp = 0 then finish w2 rh1 sent True
                  else runAPIHandler_loop True (sint (ContentLength resp) < 0) w2 rh1 sent rest)
      | AgentToControllerWrapper_HttpChunkedResponse resp \<Rightarrow>
          if \<not> seenHeader
          then (case WriteHeader w StatusBadGateway of
                  None \<Rightarrow> panic w rh sent
                | Some w1 \<Rightarrow> finish w1 rh sent False)
          else if length (chunkBody resp) = 0 then finish w rh sent True
          else (let w1 = Write_rw w (chunkBody resp);
                    w2 = (if isChunked then Flush_rw w1 else w1)
                in runAPIHandler_loop seenHeader isChunked w2 rh sent rest)
      | _ \<Rightarrow> runAPIHandler_loop seenHeader isChunked w rh sent rest)"

text \<open>
  \<open>agents.Send\<close> and the ULID generator are not under src/: \<open>send\<close> returns the session
  id when an agent was found, \<open>transactionID\<close> is the id \<open>ulidContext.Ulid()\<close> gives,
  \<open>mailbox\<close> is what arrives on \<open>message.Out\<close>. The metrics counter and the goroutine
  that cancels when the caller goes away are left out.
\<close>

definition newHttpRequest :: "string \<Rightarrow> AgentSearch \<Rightarrow> Request \<Rightarrow> HttpRequest" where
  "newHttpRequest transactionID ep r =
     \<lparr>reqId = transactionID, reqName = EndpointName ep, reqType = EndpointType ep,
      reqMethod = Method r, reqURI = RequestURI r,
      reqHeaders = makeHeaders (rHeader r), reqBody = rBody r\<rparr>"

definition runAPIHandler ::
  "(AgentSearch \<Rightarrow> HttpRequest \<Rightarrow> string option) \<Rightarrow> string \<Rightarrow> AgentToControllerWrapper recv list
     \<Rightarrow> AgentSearch \<Rightarrow> ResponseWriter \<Rightarrow> Request \<Rightarrow> handled"
where
  "runAPIHandler send transactionID mailbox ep w r =
     (let req = newHttpRequest transactionID ep r
      in case send ep req of
           None \<Rightarrow>
             (case WriteHeader w StatusBadGateway of
                None \<Rightarrow> panic w (rHeader r) [(ep, req)]
              | Some w1 \<Rightarrow> finish w1 (rHeader r) [(ep, req)] False)
         | Some sessionID \<Rightarrow>
             runAPIHandler_loop False False w (rHeader r) [(ep, req)] mailbox)"

text \<open>\<open>httpError\<close> is not under src/; it is a parameter turning the error into bytes.\<close>

definition serviceAPIHandler ::
  "(string \<Rightarrow> string + string \<times> string \<times> string) \<Rightarrow> (string \<Rightarrow> bytes)
     \<Rightarrow> (AgentSearch \<Rightarrow> HttpRequest \<Rightarrow> string option) \<Rightarrow> string \<Rightarrow> AgentToControllerWrapper recv list
     \<Rightarrow> ResponseWriter \<Rightarrow> Request \<Rightarrow> handled"
where
  "serviceAPIHandler validateJWT httpError send transactionID mailbox w r =
     (case extractEndpoint validateJWT r of
        Inl err \<Rightarrow>
          (let w1 = Write_rw w (httpError err)
           in case WriteHeader w1 StatusBadRequest of
                None \<Rightarrow> panic w1 (rHeader r) []
              | Some w2 \<Rightarrow> finish w2 (rHeader r) [] False)
      | Inr (agentIdentity, endpointType, endpointName) \<Rightarrow>
          runAPIHandler send transactionID mailbox
            \<lparr>asName = agentIdentity, EndpointType = endpointType, EndpointName = endpointName,
             Session = []\<rparr> w r)"

text \<open>
  For stating properties: whether a frame is an \<open>HttpResponse\<close>; the bodies of the
  \<open>HttpChunkedResponse\<close> frames among a list of frames, in order; the values that a
  list of agent headers gives for a canonical key, in order; \<open>carriesBody\<close> as above;
  and a dispatcher that has a session for every search.
\<close>

fun isHttpResponse :: "AgentToControllerWrapper \<Rightarrow> bool" where
  "isHttpResponse (AgentToControllerWrapper_HttpResponse resp) = True"
| "isHttpResponse x = False"

fun chunkBodies :: "AgentToControllerWrapper list \<Rightarrow> bytes list" where
  "chunkBodies [] = []"
| "chunkBodies (AgentToControllerWrapper_HttpChunkedResponse c # fs) = chunkBody c # chunkBodies fs"
| "chunkBodies (x # fs) = chunkBodies fs"

definition valuesFor :: "string \<Rightarrow> HttpHeader list \<Rightarrow> string list" where
  "valuesFor key hs =
     concat (map hdrValues (filter (\<lambda>h. CanonicalMIMEHeaderKey (hdrName h) = key) hs))"

definition carriesBody :: "Request \<Rightarrow> HttpResponse \<Rightarrow> bool" where
  "carriesBody r resp =
     (Method r \<noteq> ''HEAD'' \<and> bodyAllowedForStatus (sint (Status resp))
      \<and> valuesFor ''Content-Length'' (Headers resp) = [])"

definition sendTo :: "string \<Rightarrow> AgentSearch \<Rightarrow> HttpRequest \<Rightarrow> string option" where
  "sendTo sessionID ep message = Some sessionID"

section \<open>The control API (app/controller/controller.go, package cncserver)\<close>

text \<open>
  The \<open>cncServer\<close> fields the handlers use: \<open>s.authority.GenerateCertificate\<close> and
  \<open>s.cfg.GetControlURL()\<close>, both behind interfaces in the source. The base64 text of the
  issued certificate is not modelled: the response carries the certificate itself.
  \<open>fwdapi\<close> and \<open>util.FailRequest\<close> are not under src/; a failed request is the
  error and the status handed to \<open>util.FailRequest\<close>.
\<close>

record cncServer =
  GenerateCertificate :: "CertificateName \<Rightarrow> string + string \<times> Certificate \<times> string"
  GetControlURL :: string

record ControlCredentialsRequest =
  ccName :: string

record ControlCredentialsResponse =
  respName :: string
  URL :: string
  respCertificate :: Certificate
  Key :: string
  CACert :: string

datatype cncError =
    MethodNotAccepted string string
  | CertificateNameError string
  | NotAuthorizedForControl CertificatePurpose
  | DecodeError string
  | AuthorityError string

datatype cncReply =
    FailRequest cncError int
  | WriteJSON ControlCredentialsResponse
  | IndexOutOfRange

definition authenticate :: "string \<Rightarrow> (Request \<Rightarrow> cncReply) \<Rightarrow> Request \<Rightarrow> cncReply" where
  "authenticate method h r =
     (if Method r \<noteq> method
      then FailRequest (MethodNotAccepted method (Method r)) StatusMethodNotAllowed
      else case PeerCertificates r of
             [] \<Rightarrow> IndexOutOfRange
           | cert # certs \<Rightarrow>
               (case GetCertificateNameFromCert cert of
                  Inl err \<Rightarrow> FailRequest (CertificateNameError err) StatusForbidden
                | Inr names \<Rightarrow>
                    if Purpose names \<noteq> CertificatePurposeControl
                    then FailRequest (NotAuthorizedForControl (Purpose names)) StatusForbidden
                    else h r))"

text \<open>
  \<open>decode\<close> stands for \<open>json.NewDecoder(r.Body).Decode(&req)\<close>. Marshalling the
  response, a struct of strings, does not fail.
\<close>

definition generateControlCredentials ::
  "cncServer \<Rightarrow> (bytes \<Rightarrow> string + ControlCredentialsRequest) \<Rightarrow> Request \<Rightarrow> cncReply"
where
  "generateControlCredentials s decode r =
     (case decode (rBody r) of
        Inl err \<Rightarrow> FailRequest (DecodeError err) StatusBadRequest
      | Inr req \<Rightarrow>
          (let name = \<lparr>Name = ccName req, Type = [], Agent = [],
                       Purpose = CertificatePurposeAgent\<rparr>
           in case GenerateCertificate s name of
                Inl err \<Rightarrow> FailRequest (AuthorityError err) StatusBadRequest
              | Inr (ca64, user64, key64) \<Rightarrow>
                  WriteJSON \<lparr>respName = ccName req, URL = GetControlURL s,
                             respCertificate = user64, Key = key64, CACert = ca64\<rparr>))"

text \<open>
  Modelled from the spec: the authority behind \<open>s.authority\<close> (pkg/ca) is not under
  src/. By the round-trip law of spec 8.8 the certificate issued for a name parses back
  to that name; \<open>caPEM\<close> and \<open>keyPEM\<close> stand for the other two parts of the triple.
\<close>

definition issuingAuthority ::
  "string \<Rightarrow> string \<Rightarrow> CertificateName \<Rightarrow> string + string \<times> Certificate \<times> string"
where
  "issuingAuthority caPEM keyPEM name = Inr (caPEM, Certificate (Inr name), keyPEM)"

section \<open>Command execution on the agent (app/agent/command.go)\<close>

record outputMessage =
  channel :: ChannelDirection
  val :: bytes
  closed :: bool

text \<open>
  One \<open>in.Read(buffer)\<close> returns the bytes read and an error: nil, \<open>io.EOF\<close> or
  another one. A pipe is the list of the results of its reads; when the list is used up
  the reader stays blocked in \<open>Read\<close>. \<open>outputSender\<close> gives the messages the goroutine
  sends on the aggregation channel, in order.
\<close>

datatype readError = EOF | ReadFailed string

fun outputSender :: "ChannelDirection \<Rightarrow> (bytes \<times> readError option) list \<Rightarrow> outputMessage list" where
  "outputSender ch [] = []"
| "outputSender ch ((buf, err) # reads) =
     (if length buf > 0 then [\<lparr>channel = ch, val = buf, closed = False\<rparr>] else []) @
     (if err = Some EOF then [\<lparr>channel = ch, val = [], closed = True\<rparr>]
      else if err \<noteq> None then [\<lparr>channel = ch, val = [], closed = True\<rparr>]
      else outputSender ch reads)"

text \<open>
  The two senders run concurrently; the receiver of the unbuffered channel \<open>agg\<close> sees
  an interleaving of their messages. The interleaving is given by a schedule: \<open>True\<close>
  lets the next message of the STDOUT sender through, \<open>False\<close> the next one of the
  STDERR sender (a sender with nothing left is skipped). When the schedule is used up
  nothing more arrives.
\<close>

fun aggregate :: "bool list \<Rightarrow> outputMessage list \<Rightarrow> outputMessage list \<Rightarrow> outputMessage list" where
  "aggregate [] outs errs = []"
| "aggregate (True # sched) (m # outs) errs = m # aggregate sched outs errs"
| "aggregate (True # sched) [] errs = aggregate sched [] errs"
| "aggregate (False # sched) outs (m # errs) = m # aggregate sched outs errs"
| "aggregate (False # sched) outs [] = aggregate sched outs []"

definition makeCommandFailed :: "CommandRequest \<Rightarrow> string option \<Rightarrow> string \<Rightarrow> AgentToControllerWrapper" where
  "makeCommandFailed req err message =
     (let msg = (case err of Some e \<Rightarrow> message @ '': '' @ e | None \<Rightarrow> message)
      in AgentToControllerWrapper_CommandTermination
           \<lparr>termId = cmdId req, ExitCode = 127, Message = msg\<rparr>)"

definition makeCommandTermination :: "CommandRequest \<Rightarrow> 64 word \<Rightarrow> AgentToControllerWrapper" where
  "makeCommandTermination req exitstatus =
     AgentToControllerWrapper_CommandTermination
       \<lparr>termId = cmdId req, ExitCode = ucast exitstatus, Message = []\<rparr>"

definition makeCommandData :: "CommandRequest \<Rightarrow> ChannelDirection \<Rightarrow> bytes \<Rightarrow> AgentToControllerWrapper" where
  "makeCommandData req ch d =
     AgentToControllerWrapper_CommandData
       \<lparr>dataId = cmdId req, dataBody = d, Channel = ch, Closed = False\<rparr>"

definition makeCommandDataClosed :: "CommandRequest \<Rightarrow> ChannelDirection \<Rightarrow> AgentToControllerWrapper" where
  "makeCommandDataClosed req ch =
     AgentToControllerWrapper_CommandData
       \<lparr>dataId = cmdId req, dataBody = [], Channel = ch, Closed = True\<rparr>"

text \<open>
  The loop \<open>for msg := range agg\<close> of \<open>runCommand\<close>: the frames it puts on
  \<open>dataflow\<close>, and whether it left through \<open>break\<close> (\<open>False\<close>: it is blocked on
  \<open>agg\<close>, which is never closed).
\<close>

fun runCommand_loop :: "CommandRequest \<Rightarrow> int \<Rightarrow> outputMessage list \<Rightarrow> AgentToControllerWrapper list \<times> bool" where
  "runCommand_loop req activeCount [] = ([], False)"
| "runCommand_loop req activeCount (msg # rest) =
     (if closed msg
      then (if activeCount - 1 = 0 then ([makeCommandDataClosed req (channel msg)], True)
            else (case runCommand_loop req (activeCount - 1) rest of
                    (frames, left) \<Rightarrow> (makeCommandDataClosed req (channel msg) # frames, left)))
      else (case runCommand_loop req activeCount rest of
              (frames, left) \<Rightarrow> (makeCommandData req (channel msg) (val msg) # frames, left)))"

text \<open>
  What \<open>cmd.Wait()\<close> returns: nil, an \<open>*exec.ExitError\<close> (with the exit status when
  \<open>Sys()\<close> is a \<open>syscall.WaitStatus\<close>), or another error.
\<close>

datatype waitResult = WaitNil | WaitExitError "64 word option" | WaitError string

text \<open>
  The operating system's side of one command: the errors of \<open>StdoutPipe\<close>,
  \<open>StderrPipe\<close> and \<open>Start\<close> (\<open>None\<close> is nil), what the two pipes deliver, the
  schedule of the two senders, and the result of \<open>Wait\<close>.
\<close>

record process =
  StdoutPipe_err :: "string option"
  StderrPipe_err :: "string option"
  Start_err :: "string option"
  stdout_reads :: "(bytes \<times> readError option) list"
  stderr_reads :: "(bytes \<times> readError option) list"
  schedule :: "bool list"
  Wait_result :: waitResult

text \<open>
  \<open>runCommand\<close> returns the frames sent on \<open>dataflow\<close>, in order, and whether the
  function has returned. The table of cancel functions is left out.
\<close>

definition runCommand :: "process \<Rightarrow> CommandRequest \<Rightarrow> AgentToControllerWrapper list \<times> bool" where
  "runCommand p req =
     (case StdoutPipe_err p of
        Some err \<Rightarrow> ([makeCommandFailed req (Some err) ''StdoutPipe()''], True)
      | None \<Rightarrow>
     (case StderrPipe_err p of
        Some err \<Rightarrow> ([makeCommandFailed req (Some err) ''StderrPipe()''], True)
      | None \<Rightarrow>
     (case Start_err p of
        Some err \<Rightarrow> ([makeCommandFailed req (Some err) ''Start()''], True)
      | None \<Rightarrow>
     (case runCommand_loop req 2
             (aggregate (schedule p) (outputSender STDOUT (stdout_reads p))
                (outputSender STDERR (stderr_reads p))) of
        (frames, left) \<Rightarrow>
          if \<not> left then (frames, False)
          else (case Wait_result p of
                  WaitExitError (Some status) \<Rightarrow> (frames @ [makeCommandTermination req status], True)
                | WaitExitError None \<Rightarrow> (frames @ [makeCommandTermination req 0], True)
                | WaitError err \<Rightarrow> (frames @ [makeCommandFailed req (Some err) ''Wait()''], True)
                | WaitNil \<Rightarrow> (frames @ [makeCommandTermination req 0], True))))))"

text \<open>For stating properties: the frames that close a channel, and the terminations.\<close>

fun isClosedFor :: "ChannelDirection \<Rightarrow> AgentToControllerWrapper \<Rightarrow> bool" where
  "isClosedFor ch (AgentToControllerWrapper_CommandData d) = (Closed d \<and> Channel d = ch)"
| "isClosedFor ch x = False"

fun isTermination :: "AgentToControllerWrapper \<Rightarrow> bool" where
  "isTermination (AgentToControllerWrapper_CommandTermination t) = True"
| "isTermination x = False"

fun isCommandData :: "AgentToControllerWrapper \<Rightarrow> bool" where
  "isCommandData (AgentToControllerWrapper_CommandData d) = True"
| "isCommandData x = False"

section \<open>The command tool (app/remote-command/main.go)\<close>

record CmdToolCommandData =
  ctBody :: bytes
  ctChannel :: ChannelDirection
  ctClosed :: bool

record CmdToolCommandTermination =
  ctExitCode :: "32 word"
  ctMessage :: string

datatype ControllerToCmdToolWrapper =
    ControllerToCmdToolWrapper_CommandTermination CmdToolCommandTermination
  | ControllerToCmdToolWrapper_CommandData CmdToolCommandData
  | ControllerToCmdToolWrapper_nil

text \<open>What \<open>stream.Recv()\<close> returns: a message, \<open>io.EOF\<close>, or another error.\<close>

datatype received = Received ControllerToCmdToolWrapper | StreamEOF | StreamError string

text \<open>
  What the tool does to the outside: bytes to its standard output, bytes to its standard
  error, and a \<open>log.Fatalf\<close> (given by its format string), which ends the process with
  exit code 1.
\<close>

datatype toolEvent = ToStdout bytes | ToStderr bytes | Fatalf string

text \<open>
  \<open>os.Exit(code)\<close> ends the process; on Linux, where the tool is built to run, the
  exit status the parent sees is the low 8 bits of the code.
\<close>

definition os_Exit :: "int \<Rightarrow> int" where
  "os_Exit code = code mod 256"

text \<open>
  The receiving goroutine of \<open>runCommand\<close> (lines 98 to 129): the events in order, and
  the exit status of the process (\<open>None\<close>: it is still blocked in \<open>Recv\<close>). After
  \<open>io.EOF\<close> the main goroutine closes the stream and ends in \<open>log.Fatalf\<close>, which
  calls \<open>os.Exit(1)\<close>.
\<close>

fun cmdtool_receive :: "received list \<Rightarrow> toolEvent list \<times> int option" where
  "cmdtool_receive [] = ([], None)"
| "cmdtool_receive (StreamEOF # rest) = ([Fatalf ''While closing stream: %v''], Some (os_Exit 1))"
| "cmdtool_receive (StreamError err # rest) =
     ([Fatalf ''Failed to receive a message: %T: %v''], Some (os_Exit 1))"
| "cmdtool_receive (Received x # rest) =
     (case x of
        ControllerToCmdToolWrapper_CommandData req \<Rightarrow>
          (case cmdtool_receive rest of
             (events, code) \<Rightarrow>
               ((if ctChannel req = STDOUT then ToStdout (ctBody req) else ToStderr (ctBody req))
                  # events, code))
      | ControllerToCmdToolWrapper_CommandTermination req \<Rightarrow>
          ((if length (ctMessage req) > 0 then [ToStderr (ctMessage req @ [CHR 0x0A])] else []),
           Some (os_Exit (sint (ctExitCode req))))
      | ControllerToCmdToolWrapper_nil \<Rightarrow> cmdtool_receive rest)"

text \<open>
  \<open>runCommand\<close> of the tool: opening the stream and sending the request may fail (the
  two errors are parameters, \<open>None\<close> is nil), each ending in \<open>log.Fatalf\<close>; then the
  receiving loop decides.
\<close>

definition cmdtool_runCommand ::
  "string option \<Rightarrow> string option \<Rightarrow> received list \<Rightarrow> toolEvent list \<times> int option"
where
  "cmdtool_runCommand tunnelErr sendErr stream =
     (if tunnelErr \<noteq> None then ([Fatalf ''%v.EventTunnel(_) = _, %v''], Some (os_Exit 1))
      else if sendErr \<noteq> None then ([Fatalf ''while sending to stream: %v''], Some (os_Exit 1))
      else cmdtool_receive stream)"

fun stdoutOf :: "toolEvent list \<Rightarrow> bytes" where
  "stdoutOf [] = []"
| "stdoutOf (ToStdout b # es) = b @ stdoutOf es"
| "stdoutOf (e # es) = stdoutOf es"

fun stderrOf :: "toolEvent list \<Rightarrow> bytes" where
  "stderrOf [] = []"
| "stderrOf (ToStderr b # es) = b @ stderrOf es"
| "stderrOf (e # es) = stderrOf es"

text \<open>
  For stating properties: the \<open>CommandData\<close> payloads among received messages, and
  whether a message is a termination.
\<close>

fun dataFrames :: "ControllerToCmdToolWrapper list \<Rightarrow> CmdToolCommandData list" where
  "dataFrames [] = []"
| "dataFrames (ControllerToCmdToolWrapper_CommandData d # xs) = d # dataFrames xs"
| "dataFrames (x # xs) = dataFrames xs"

fun isToolTermination :: "ControllerToCmdToolWrapper \<Rightarrow> bool" where
  "isToolTermination (ControllerToCmdToolWrapper_CommandTermination t) = True"
| "isToolTermination x = False"

section \<open>Properties of the control API\<close>

text \<open>
  Claim C1 says that the certificate returned by \<open>generateControlCredentials\<close> has
  purpose control and so passes the \<open>authenticate\<close> gate of the control API. The code
  asks the authority for a certificate of purpose agent: for every name \<open>n\<close> in the
  request body the reply carries a certificate whose name is
  \<open>(Name = n, Purpose = agent)\<close>, and a POST presenting that certificate is refused by
  \<open>authenticate\<close> with 403.
\<close>

theorem generateControlCredentials_issues_agent_purpose:
  "generateControlCredentials
      \<lparr>GenerateCertificate = issuingAuthority caPEM keyPEM, GetControlURL = url\<rparr>
      (\<lambda>body. Inr \<lparr>ccName = n\<rparr>) r =
    WriteJSON \<lparr>respName = n, URL = url,
      respCertificate =
        Certificate (Inr \<lparr>Name = n, Type = [], Agent = [], Purpose = CertificatePurposeAgent\<rparr>),
      Key = keyPEM, CACert = caPEM\<rparr>
   \<and> authenticate ''POST'' h
        (r2\<lparr>Method := ''POST'',
            PeerCertificates :=
              [Certificate (Inr \<lparr>Name = n, Type = [], Agent = [],
                                  Purpose = CertificatePurposeAgent\<rparr>)]\<rparr>) =
      FailRequest (NotAuthorizedForControl CertificatePurposeAgent) 403"
  by (simp add: generateControlCredentials_def issuingAuthority_def authenticate_def
      GetCertificateNameFromCert_def StatusForbidden_def)

section \<open>Properties of identity extraction\<close>

text \<open>
  Claim C10: on the service listener the client certificate comes first. When the first
  peer certificate parses to a name of purpose service, \<open>extractEndpoint\<close> returns the
  certificate's \<open>(agentName, type, name)\<close>, whatever Basic credentials the request
  carries and whatever the JWT validation would answer: the JWT is not consulted. When
  there is no peer certificate, or the first one does not parse, or its purpose is not
  service, the result is that of the JWT path: the tuple of the validated Basic-auth
  password, or the error when there are no Basic credentials or the validation fails.
\<close>

theorem extractEndpoint_certificate_first:
  "(PeerCertificates r = cert # certs \<and> GetCertificateNameFromCert cert = Inr names
      \<and> Purpose names = CertificatePurposeService \<longrightarrow>
      extractEndpoint validateJWT (r\<lparr>BasicAuth := creds\<rparr>) =
        Inr (Agent names, Type names, Name names))
   \<and> (PeerCertificates r = []
        \<or> (\<exists>cert certs. PeerCertificates r = cert # certs \<and>
              (case GetCertificateNameFromCert cert of
                 Inl err \<Rightarrow> True
               | Inr names \<Rightarrow> Purpose names \<noteq> CertificatePurposeService)) \<longrightarrow>
      extractEndpoint validateJWT r =
        (case BasicAuth r of
           None \<Rightarrow> Inl ''no valid credentials or JWT found''
         | Some (user, authPassword) \<Rightarrow>
             (case validateJWT authPassword of
                Inl err \<Rightarrow> Inl ''no valid credentials or JWT found''
              | Inr (endpointType, endpointName, agentIdentity) \<Rightarrow>
                  Inr (agentIdentity, endpointType, endpointName))))"
  by (auto simp: extractEndpoint_def extractEndpointFromCert_def extractEndpointFromJWT_def
      split: list.splits sum.splits option.splits prod.splits)

theorem extractEndpoint_certificate_first_witness:
  "PeerCertificates \<lparr>Method = ''GET'', RequestURI = ''/api'', rHeader = [], rBody = [],
       PeerCertificates = [Certificate (Inr \<lparr>Name = ''prod'', Type = ''aws'', Agent = ''east'',
                        Purpose = CertificatePurposeService\<rparr>)], BasicAuth = None\<rparr> = Certificate (Inr \<lparr>Name = ''prod'', Type = ''aws'', Agent = ''east'',
                        Purpose = CertificatePurposeService\<rparr>) # []
   \<and> GetCertificateNameFromCert (Certificate (Inr \<lparr>Name = ''prod'', Type = ''aws'', Agent = ''east'',
                        Purpose = CertificatePurposeService\<rparr>)) =
       Inr \<lparr>Name = ''prod'', Type = ''aws'', Agent = ''east'', Purpose = CertificatePurposeService\<rparr>
   \<and> extractEndpoint (\<lambda>password. Inr (''jenkins'', ''ci'', ''west'')) \<lparr>Method = ''GET'', RequestURI = ''/api'', rHeader = [], rBody = [],
       PeerCertificates = [Certificate (Inr \<lparr>Name = ''prod'', Type = ''aws'', Agent = ''east'',
                        Purpose = CertificatePurposeService\<rparr>)], BasicAuth = Some (''ci.west'', ''token'')\<rparr> =
       Inr (''east'', ''aws'', ''prod'')
   \<and> PeerCertificates \<lparr>Method = ''GET'', RequestURI = ''/api'', rHeader = [], rBody = [],
       PeerCertificates = [Certificate (Inr \<lparr>Name = ''admin'', Type = [], Agent = [],
                        Purpose = CertificatePurposeControl\<rparr>)], BasicAuth = Some (''ci.west'', ''token'')\<rparr> = Certificate (Inr \<lparr>Name = ''admin'', Type = [], Agent = [],
                        Purpose = CertificatePurposeControl\<rparr>) # []
   \<and> extractEndpoint (\<lambda>password. Inr (''jenkins'', ''ci'', ''west'')) \<lparr>Method = ''GET'', RequestURI = ''/api'', rHeader = [], rBody = [],
       PeerCertificates = [Certificate (Inr \<lparr>Name = ''admin'', Type = [], Agent = [],
                        Purpose = CertificatePurposeControl\<rparr>)], BasicAuth = Some (''ci.west'', ''token'')\<rparr> =
       Inr (''west'', ''jenkins'', ''ci'')
   \<and> PeerCertificates \<lparr>Method = ''GET'', RequestURI = ''/api'', rHeader = [], rBody = [],
       PeerCertificates = [Certificate (Inl ''bad CN'')], BasicAuth = Some (''ci.west'', ''token'')\<rparr> = Certificate (Inl ''bad CN'') # []
   \<and> extractEndpoint (\<lambda>password. Inr (''jenkins'', ''ci'', ''west'')) \<lparr>Method = ''GET'', RequestURI = ''/api'', rHeader = [], rBody = [],
       PeerCertificates = [Certificate (Inl ''bad CN'')], BasicAuth = Some (''ci.west'', ''token'')\<rparr> =
       Inr (''west'', ''jenkins'', ''ci'')
   \<and> PeerCertificates \<lparr>Method = ''GET'', RequestURI = ''/api'', rHeader = [], rBody = [],
       PeerCertificates = [], BasicAuth = Some (''ci.west'', ''token'')\<rparr> = []
   \<and> extractEndpoint (\<lambda>password. Inr (''jenkins'', ''ci'', ''west'')) \<lparr>Method = ''GET'', RequestURI = ''/api'', rHeader = [], rBody = [],
       PeerCertificates = [], BasicAuth = Some (''ci.west'', ''token'')\<rparr> =
       Inr (''west'', ''jenkins'', ''ci'')
   \<and> extractEndpoint (\<lambda>password. Inl ''expired'') \<lparr>Method = ''GET'', RequestURI = ''/api'', rHeader = [], rBody = [],
       PeerCertificates = [], BasicAuth = Some (''ci.west'', ''token'')\<rparr> =
       Inl ''no valid credentials or JWT found''"
  using extractEndpoint_certificate_first [of "\<lparr>Method = ''GET'', RequestURI = ''/api'', rHeader = [], rBody = [],
       PeerCertificates = [Certificate (Inr \<lparr>Name = ''prod'', Type = ''aws'', Agent = ''east'',
                        Purpose = CertificatePurposeService\<rparr>)], BasicAuth = None\<rparr>" "Certificate (Inr \<lparr>Name = ''prod'', Type = ''aws'', Agent = ''east'',
                        Purpose = CertificatePurposeService\<rparr>)" "[]"
        "\<lparr>Name = ''prod'', Type = ''aws'', Agent = ''east'', Purpose = CertificatePurposeService\<rparr>"
        "\<lambda>password. Inr (''jenkins'', ''ci'', ''west'')" "Some (''ci.west'', ''token'')"]
    extractEndpoint_certificate_first [of "\<lparr>Method = ''GET'', RequestURI = ''/api'', rHeader = [], rBody = [],
       PeerCertificates = [Certificate (Inr \<lparr>Name = ''admin'', Type = [], Agent = [],
                        Purpose = CertificatePurposeControl\<rparr>)], BasicAuth = Some (''ci.west'', ''token'')\<rparr>" _ _ _ "\<lambda>password. Inr (''jenkins'', ''ci'', ''west'')"]
    extractEndpoint_certificate_first [of "\<lparr>Method = ''GET'', RequestURI = ''/api'', rHeader = [], rBody = [],
       PeerCertificates = [Certificate (Inl ''bad CN'')], BasicAuth = Some (''ci.west'', ''token'')\<rparr>" _ _ _ "\<lambda>password. Inr (''jenkins'', ''ci'', ''west'')"]
    extractEndpoint_certificate_first [of "\<lparr>Method = ''GET'', RequestURI = ''/api'', rHeader = [], rBody = [],
       PeerCertificates = [], BasicAuth = Some (''ci.west'', ''token'')\<rparr>" _ _ _ "\<lambda>password. Inr (''jenkins'', ''ci'', ''west'')"]
    extractEndpoint_certificate_first [of "\<lparr>Method = ''GET'', RequestURI = ''/api'', rHeader = [], rBody = [],
       PeerCertificates = [], BasicAuth = Some (''ci.west'', ''token'')\<rparr>" _ _ _ "\<lambda>password. Inl ''expired''"]
  by (simp add: GetCertificateNameFromCert_def)

section \<open>Properties of the service handler\<close>

text \<open>
  Claim C2 says that a request without identity is answered with status 400 and that
  nothing is dispatched. Nothing is dispatched, but \<open>serviceAPIHandler\<close> writes the
  error body before it calls \<open>WriteHeader(http.StatusBadRequest)\<close>: the write sends the
  header with status 200, and the later \<open>WriteHeader\<close> changes nothing. Evaluated on a
  request with no peer certificate and no Basic credentials.
\<close>

theorem serviceAPIHandler_no_identity_replies_200:
  "statusCode (rw (serviceAPIHandler validateJWT httpError send tid mailbox newResponseWriter
       \<lparr>Method = ''GET'', RequestURI = ''/api'', rHeader = [], rBody = [],
        PeerCertificates = [], BasicAuth = None\<rparr>)) = 200
   \<and> written (rw (serviceAPIHandler validateJWT httpError send tid mailbox newResponseWriter
       \<lparr>Method = ''GET'', RequestURI = ''/api'', rHeader = [], rBody = [],
        PeerCertificates = [], BasicAuth = None\<rparr>)) =
       [Write (httpError ''no valid credentials or JWT found'')]
   \<and> dispatched (serviceAPIHandler validateJWT httpError send tid mailbox newResponseWriter
       \<lparr>Method = ''GET'', RequestURI = ''/api'', rHeader = [], rBody = [],
        PeerCertificates = [], BasicAuth = None\<rparr>) = []"
  by (simp add: serviceAPIHandler_def extractEndpoint_def extractEndpointFromCert_def
      extractEndpointFromJWT_def newResponseWriter_def Write_rw_def WriteHeader_def
      sendHeader_def finish_def Let_def StatusOK_def)

section \<open>Properties of the response state machine\<close>

lemma Write_rw_wrote:
  "wroteHeader w \<Longrightarrow> Write_rw w b = w\<lparr>written := written w @ [Write b]\<rparr>"
  by (simp add: Write_rw_def)

lemma Flush_rw_wrote:
  "wroteHeader w \<Longrightarrow> Flush_rw w = w\<lparr>written := written w @ [Flush]\<rparr>"
  by (simp add: Flush_rw_def)

lemma loop_frames:
  assumes "wroteHeader w" and "\<forall>f\<in>set fs. \<not> isHttpResponse f"
  shows "runAPIHandler_loop True isChunked w rh sent (map Recv fs @ rest) =
     (if [] \<in> set (chunkBodies fs)
      then finish (w\<lparr>written := written w @
                 concat (map (\<lambda>b. if isChunked then [Write b, Flush] else [Write b])
                   (takeWhile (\<lambda>b. b \<noteq> []) (chunkBodies fs)))\<rparr>) rh sent True
      else runAPIHandler_loop True isChunked
             (w\<lparr>written := written w @
                 concat (map (\<lambda>b. if isChunked then [Write b, Flush] else [Write b])
                   (chunkBodies fs))\<rparr>)
             rh sent rest)"
  using assms
proof (induction fs arbitrary: w)
  case Nil
  then show ?case by simp
next
  case (Cons f fs)
  show ?case
  proof (cases f)
    case (AgentToControllerWrapper_HttpChunkedResponse c)
    show ?thesis
    proof (cases "chunkBody c = []")
      case True
      then show ?thesis
        using AgentToControllerWrapper_HttpChunkedResponse by simp
    next
      case False
      let ?w' = "w\<lparr>written := written w @ (if isChunked then [Write (chunkBody c), Flush] else [Write (chunkBody c)])\<rparr>"
      have w': "wroteHeader ?w'" using Cons.prems by simp
      have nores: "\<forall>f\<in>set fs. \<not> isHttpResponse f" using Cons.prems by simp
      have step: "runAPIHandler_loop True isChunked w rh sent (map Recv (f # fs) @ rest) =
                  runAPIHandler_loop True isChunked ?w' rh sent (map Recv fs @ rest)"
        using False Cons.prems AgentToControllerWrapper_HttpChunkedResponse
        by (simp add: Write_rw_wrote Flush_rw_wrote Let_def)
      show ?thesis
        unfolding step Cons.IH [OF w' nores]
        using False AgentToControllerWrapper_HttpChunkedResponse by simp
    qed
  next
    case (AgentToControllerWrapper_HttpResponse resp)
    then show ?thesis using Cons.prems by simp
  qed (use Cons in simp_all)
qed

lemma loop_frames_blocked:
  assumes "wroteHeader w" and "\<forall>f\<in>set fs. \<not> isHttpResponse f"
  shows "runAPIHandler_loop True isChunked w rh sent (map Recv fs) =
     \<lparr>rw = w\<lparr>written := written w @
             concat (map (\<lambda>b. if isChunked then [Write b, Flush] else [Write b])
               (takeWhile (\<lambda>b. b \<noteq> []) (chunkBodies fs)))\<rparr>,
      reqHeader = rh, dispatched = sent,
      cleanClose = ([] \<in> set (chunkBodies fs)), returned = ([] \<in> set (chunkBodies fs)),
      panicked = False\<rparr>"
proof (cases "[] \<in> set (chunkBodies fs)")
  case True
  then show ?thesis
    using loop_frames [OF assms, of isChunked rh sent "[]"] by (simp add: finish_def)
next
  case False
  then have tw: "takeWhile (\<lambda>b. b \<noteq> []) (chunkBodies fs) = chunkBodies fs"
    by (metis (mono_tags, lifting) takeWhile_eq_all_conv)
  show ?thesis
    using False loop_frames [OF assms, of isChunked rh sent "[]"] by (simp add: tw)
qed

lemma bodyOf_append: "bodyOf (xs @ ys) = bodyOf xs @ bodyOf ys"
  by (induction xs rule: bodyOf.induct) simp_all

lemma bodyOf_writes_flushed:
  "bodyOf (concat (map (\<lambda>b. [Write b, Flush]) bs)) = concat bs"
  by (induction bs) simp_all

lemma bodyOf_writes: "bodyOf (map Write bs) = concat bs"
  by (induction bs) simp_all

lemma map_of_appendValue:
  "map_of (appendValue h k v) k' =
     (if k' = k then Some ((case map_of h k of None \<Rightarrow> [] | Some vs \<Rightarrow> vs) @ [v])
      else map_of h k')"
  by (induction h k v rule: appendValue.induct) auto

lemma map_of_Header_Add:
  "map_of (Header_Add h name v) k =
     (if k = CanonicalMIMEHeaderKey name
      then Some ((case map_of h k of None \<Rightarrow> [] | Some vs \<Rightarrow> vs) @ [v])
      else map_of h k)"
  by (simp add: Header_Add_def map_of_appendValue)

lemma map_of_add_values:
  "map_of (fold (\<lambda>v h2. Header_Add h2 name v) vs h) k =
     (if CanonicalMIMEHeaderKey name = k \<and> vs \<noteq> []
      then Some ((case map_of h k of None \<Rightarrow> [] | Some old \<Rightarrow> old) @ vs)
      else map_of h k)"
proof (induction vs arbitrary: h)
  case Nil
  then show ?case by simp
next
  case (Cons v vs)
  show ?case
    by (auto simp: Cons.IH map_of_Header_Add split: option.splits)
qed

lemma map_of_copyHeaders:
  "map_of (copyHeaders hs h) k =
     (if valuesFor k hs = [] then map_of h k
      else Some ((case map_of h k of None \<Rightarrow> [] | Some old \<Rightarrow> old) @ valuesFor k hs))"
proof (induction hs arbitrary: h)
  case Nil
  then show ?case by (simp add: copyHeaders_def valuesFor_def)
next
  case (Cons x hs)
  have unfold: "copyHeaders (x # hs) h =
      copyHeaders hs (fold (\<lambda>v h2. Header_Add h2 (hdrName x) v) (hdrValues x) h)"
    by (simp add: copyHeaders_def)
  have vf: "valuesFor k (x # hs) =
      (if CanonicalMIMEHeaderKey (hdrName x) = k then hdrValues x else []) @ valuesFor k hs"
    by (simp add: valuesFor_def)
  show ?case
    unfolding unfold Cons.IH vf
    by (auto simp: map_of_add_values split: option.splits)
qed

lemma map_of_copyHeaders_fresh:
  "map_of (copyHeaders hs []) k = (if valuesFor k hs = [] then None else Some (valuesFor k hs))"
  by (simp add: map_of_copyHeaders)


lemma response_then:
  assumes "send ep (newHttpRequest tid ep r) = Some sid"
    and "100 \<le> sint (Status resp)" and "sint (Status resp) \<le> 999"
    and "ContentLength resp \<noteq> 0"
  shows "runAPIHandler send tid (Recv (AgentToControllerWrapper_HttpResponse resp) # rest) ep
           newResponseWriter r =
         runAPIHandler_loop True (sint (ContentLength resp) < 0)
           \<lparr>wHeader = copyHeaders (Headers resp) [], wroteHeader = True,
            statusCode = sint (Status resp), sentHeader = copyHeaders (Headers resp) [],
            written = []\<rparr>
           (rHeader r) [(ep, newHttpRequest tid ep r)] rest"
  using assms
  by (simp add: runAPIHandler_def newResponseWriter_def WriteHeader_def sendHeader_def Let_def)

text \<open>
  Claim C6: when the first frame of a transaction is an \<open>HttpChunkedResponse\<close>, the
  handler sends status 502 and returns; the body writes are as they were before, so the
  chunk's body is not written.
\<close>

theorem chunk_before_response_is_bad_gateway:
  assumes "send ep (newHttpRequest tid ep r) = Some sid" and "\<not> wroteHeader w"
  shows "returned (runAPIHandler send tid
             (Recv (AgentToControllerWrapper_HttpChunkedResponse c) # rest) ep w r)
       \<and> statusCode (rw (runAPIHandler send tid
             (Recv (AgentToControllerWrapper_HttpChunkedResponse c) # rest) ep w r)) = 502
       \<and> wroteHeader (rw (runAPIHandler send tid
             (Recv (AgentToControllerWrapper_HttpChunkedResponse c) # rest) ep w r))
       \<and> written (rw (runAPIHandler send tid
             (Recv (AgentToControllerWrapper_HttpChunkedResponse c) # rest) ep w r)) = written w"
  using assms
  by (simp add: runAPIHandler_def WriteHeader_def sendHeader_def finish_def StatusBadGateway_def)

theorem chunk_before_response_is_bad_gateway_witness:
  "sendTo ''s'' \<lparr>asName = ''east'', EndpointType = ''kubernetes'', EndpointName = ''default'', Session = []\<rparr> (newHttpRequest ''t'' \<lparr>asName = ''east'', EndpointType = ''kubernetes'', EndpointName = ''default'', Session = []\<rparr> \<lparr>Method = ''GET'', RequestURI = ''/api'', rHeader = [], rBody = [],
        PeerCertificates = [], BasicAuth = None\<rparr>) = Some ''s''
   \<and> \<not> wroteHeader newResponseWriter
   \<and> returned (runAPIHandler (sendTo ''s'') ''t''
        [Recv (AgentToControllerWrapper_HttpChunkedResponse \<lparr>chunkId = ''t'', chunkBody = ''ok''\<rparr>)]
        \<lparr>asName = ''east'', EndpointType = ''kubernetes'', EndpointName = ''default'', Session = []\<rparr> newResponseWriter \<lparr>Method = ''GET'', RequestURI = ''/api'', rHeader = [], rBody = [],
        PeerCertificates = [], BasicAuth = None\<rparr>)
   \<and> statusCode (rw (runAPIHandler (sendTo ''s'') ''t''
        [Recv (AgentToControllerWrapper_HttpChunkedResponse \<lparr>chunkId = ''t'', chunkBody = ''ok''\<rparr>)]
        \<lparr>asName = ''east'', EndpointType = ''kubernetes'', EndpointName = ''default'', Session = []\<rparr> newResponseWriter \<lparr>Method = ''GET'', RequestURI = ''/api'', rHeader = [], rBody = [],
        PeerCertificates = [], BasicAuth = None\<rparr>)) = 502
   \<and> written (rw (runAPIHandler (sendTo ''s'') ''t''
        [Recv (AgentToControllerWrapper_HttpChunkedResponse \<lparr>chunkId = ''t'', chunkBody = ''ok''\<rparr>)]
        \<lparr>asName = ''east'', EndpointType = ''kubernetes'', EndpointName = ''default'', Session = []\<rparr> newResponseWriter \<lparr>Method = ''GET'', RequestURI = ''/api'', rHeader = [], rBody = [],
        PeerCertificates = [], BasicAuth = None\<rparr>)) = []"
  using chunk_before_response_is_bad_gateway
    [of "sendTo ''s''" "\<lparr>asName = ''east'', EndpointType = ''kubernetes'', EndpointName = ''default'', Session = []\<rparr>" "''t''" "\<lparr>Method = ''GET'', RequestURI = ''/api'', rHeader = [], rBody = [],
        PeerCertificates = [], BasicAuth = None\<rparr>" "''s''" newResponseWriter
        "\<lparr>chunkId = ''t'', chunkBody = ''ok''\<rparr>" "[]"]
  by (simp add: sendTo_def newResponseWriter_def)

text \<open>
  Claim C3 says that the headers already set on the response writer are removed before
  the agent's headers are copied. The loop over \<open>w.Header()\<close> calls \<open>r.Header.Del\<close>: it
  deletes from the headers of the request, and the writer keeps what it had. With
  \<open>X-Pre\<close> set on the writer (and on the request), the headers sent are \<open>X-Pre\<close> and
  the agent's \<open>Content-Type\<close>, and the request has lost its \<open>X-Pre\<close>. With a fresh
  writer and two \<open>HttpResponse\<close> frames, the header \<open>A\<close> of the first frame is still
  on the writer after the second.
\<close>

theorem response_headers_not_cleared:
  "sentHeader (rw (runAPIHandler (sendTo ''s'') ''t''
     [Recv (AgentToControllerWrapper_HttpResponse
        \<lparr>respId = ''t'', Status = 200, Headers = [HttpHeader ''Content-Type'' [''text/plain'']],
         ContentLength = 0\<rparr>)]
     \<lparr>asName = ''east'', EndpointType = ''kubernetes'', EndpointName = ''default'', Session = []\<rparr>
     (newResponseWriter\<lparr>wHeader := [(''X-Pre'', [''1''])]\<rparr>)
     \<lparr>Method = ''GET'', RequestURI = ''/api'', rHeader = [(''X-Pre'', [''r'']), (''Accept'', [''*/*''])],
      rBody = [], PeerCertificates = [], BasicAuth = None\<rparr>))
     = [(''X-Pre'', [''1'']), (''Content-Type'', [''text/plain''])]
   \<and> reqHeader (runAPIHandler (sendTo ''s'') ''t''
     [Recv (AgentToControllerWrapper_HttpResponse
        \<lparr>respId = ''t'', Status = 200, Headers = [HttpHeader ''Content-Type'' [''text/plain'']],
         ContentLength = 0\<rparr>)]
     \<lparr>asName = ''east'', EndpointType = ''kubernetes'', EndpointName = ''default'', Session = []\<rparr>
     (newResponseWriter\<lparr>wHeader := [(''X-Pre'', [''1''])]\<rparr>)
     \<lparr>Method = ''GET'', RequestURI = ''/api'', rHeader = [(''X-Pre'', [''r'']), (''Accept'', [''*/*''])],
      rBody = [], PeerCertificates = [], BasicAuth = None\<rparr>)
     = [(''Accept'', [''*/*''])]
   \<and> wHeader (rw (runAPIHandler (sendTo ''s'') ''t''
     [Recv (AgentToControllerWrapper_HttpResponse
        \<lparr>respId = ''t'', Status = 200, Headers = [HttpHeader ''A'' [''1'']], ContentLength = 5\<rparr>),
      Recv (AgentToControllerWrapper_HttpResponse
        \<lparr>respId = ''t'', Status = 200, Headers = [HttpHeader ''B'' [''2'']], ContentLength = 0\<rparr>)]
     \<lparr>asName = ''east'', EndpointType = ''kubernetes'', EndpointName = ''default'', Session = []\<rparr> newResponseWriter \<lparr>Method = ''GET'', RequestURI = ''/api'', rHeader = [], rBody = [],
        PeerCertificates = [], BasicAuth = None\<rparr>))
     = [(''A'', [''1'']), (''B'', [''2''])]"
  by code_simp




text \<open>
  Claim C5 says this for every sequence of frames that begins with \<open>HttpResponse\<close>. It
  fails when a second \<open>HttpResponse\<close> is in the sequence: after
  \<open>HttpResponse{contentLength=-1}\<close>, chunk \<open>a\<close>, \<open>HttpResponse{contentLength=0}\<close>,
  chunk \<open>bc\<close> and an empty chunk, the handler has returned at the second
  \<open>HttpResponse\<close> and the body is \<open>a\<close>. It fails as well for a status that
  \<open>WriteHeader\<close> refuses: with status 0 the handler panics and no header is written.
\<close>

theorem response_sequence_counterexample:
  "bodyOf (written (rw (runAPIHandler (sendTo ''s'') ''t''
       [Recv (AgentToControllerWrapper_HttpResponse
                \<lparr>respId = ''t'', Status = 200, Headers = [], ContentLength = - 1\<rparr>),
        Recv (AgentToControllerWrapper_HttpChunkedResponse \<lparr>chunkId = ''t'', chunkBody = ''a''\<rparr>),
        Recv (AgentToControllerWrapper_HttpResponse
                \<lparr>respId = ''t'', Status = 200, Headers = [], ContentLength = 0\<rparr>),
        Recv (AgentToControllerWrapper_HttpChunkedResponse \<lparr>chunkId = ''t'', chunkBody = ''bc''\<rparr>),
        Recv (AgentToControllerWrapper_HttpChunkedResponse \<lparr>chunkId = ''t'', chunkBody = []\<rparr>)]
       \<lparr>asName = ''east'', EndpointType = ''kubernetes'', EndpointName = ''default'', Session = []\<rparr> newResponseWriter \<lparr>Method = ''GET'', RequestURI = ''/api'', rHeader = [], rBody = [],
        PeerCertificates = [], BasicAuth = None\<rparr>))) = ''a''
   \<and> panicked (runAPIHandler (sendTo ''s'') ''t''
       [Recv (AgentToControllerWrapper_HttpResponse
                \<lparr>respId = ''t'', Status = 0, Headers = [], ContentLength = 0\<rparr>)]
       \<lparr>asName = ''east'', EndpointType = ''kubernetes'', EndpointName = ''default'', Session = []\<rparr> newResponseWriter \<lparr>Method = ''GET'', RequestURI = ''/api'', rHeader = [], rBody = [],
        PeerCertificates = [], BasicAuth = None\<rparr>)
   \<and> \<not> wroteHeader (rw (runAPIHandler (sendTo ''s'') ''t''
       [Recv (AgentToControllerWrapper_HttpResponse
                \<lparr>respId = ''t'', Status = 0, Headers = [], ContentLength = 0\<rparr>)]
       \<lparr>asName = ''east'', EndpointType = ''kubernetes'', EndpointName = ''default'', Session = []\<rparr> newResponseWriter \<lparr>Method = ''GET'', RequestURI = ''/api'', rHeader = [], rBody = [],
        PeerCertificates = [], BasicAuth = None\<rparr>))"
  by code_simp

text \<open>
  Claim C5 as amended, for a transaction on a fresh writer that begins with an
  \<open>HttpResponse\<close> whose status is from 100 to 999. With \<open>contentLength = 0\<close> the
  handler sends the status and the agent's headers (for each canonical key the values of
  the agent's headers of that key, in order), writes no body and returns, whatever
  follows. With \<open>contentLength < 0\<close>, a response that carries a body (\<open>carriesBody\<close>)
  and following frames \<open>fs\<close> with no further \<open>HttpResponse\<close> among them, the body of
  each \<open>HttpChunkedResponse\<close> frame before the first empty one is written and flushed
  at once, in arrival order, so the body sent is their concatenation; frames of other
  kinds are skipped; the handler has returned exactly when an empty frame has arrived,
  and nothing after that frame matters.
\<close>

theorem response_zero_length_or_chunked:
  assumes "send ep (newHttpRequest tid ep r) = Some sid"
    and "100 \<le> sint (Status resp)" and "sint (Status resp) \<le> 999"
    and "\<forall>f\<in>set fs. \<not> isHttpResponse f"
  shows "(ContentLength resp = 0 \<longrightarrow>
            (let h = runAPIHandler send tid
                       (Recv (AgentToControllerWrapper_HttpResponse resp) # rest) ep
                       newResponseWriter r
             in returned h \<and> cleanClose h \<and> \<not> panicked h
                \<and> wroteHeader (rw h) \<and> statusCode (rw h) = sint (Status resp)
                \<and> (\<forall>key. map_of (sentHeader (rw h)) key =
                      (if valuesFor key (Headers resp) = [] then None
                       else Some (valuesFor key (Headers resp))))
                \<and> written (rw h) = []))
       \<and> (sint (ContentLength resp) < 0 \<and> carriesBody r resp \<longrightarrow>
            (let h = runAPIHandler send tid
                       (Recv (AgentToControllerWrapper_HttpResponse resp) # map Recv fs) ep
                       newResponseWriter r
             in written (rw h) =
                  concat (map (\<lambda>b. [Write b, Flush]) (takeWhile (\<lambda>b. b \<noteq> []) (chunkBodies fs)))
                \<and> bodyOf (written (rw h)) = concat (takeWhile (\<lambda>b. b \<noteq> []) (chunkBodies fs))
                \<and> wroteHeader (rw h) \<and> statusCode (rw h) = sint (Status resp)
                \<and> (\<forall>key. map_of (sentHeader (rw h)) key =
                      (if valuesFor key (Headers resp) = [] then None
                       else Some (valuesFor key (Headers resp))))
                \<and> (returned h \<longleftrightarrow> [] \<in> set (chunkBodies fs))
                \<and> (cleanClose h \<longleftrightarrow> [] \<in> set (chunkBodies fs))
                \<and> \<not> panicked h
                \<and> ([] \<in> set (chunkBodies fs) \<longrightarrow>
                     runAPIHandler send tid
                       (Recv (AgentToControllerWrapper_HttpResponse resp) # map Recv fs @ rest) ep
                       newResponseWriter r = h)))"
proof (intro conjI impI)
  assume z: "ContentLength resp = 0"
  have "runAPIHandler send tid (Recv (AgentToControllerWrapper_HttpResponse resp) # rest) ep
           newResponseWriter r =
        finish \<lparr>wHeader = copyHeaders (Headers resp) [], wroteHeader = True,
                statusCode = sint (Status resp), sentHeader = copyHeaders (Headers resp) [],
                written = []\<rparr> (rHeader r) [(ep, newHttpRequest tid ep r)] True"
    using assms(1-3) z
    by (simp add: runAPIHandler_def newResponseWriter_def WriteHeader_def sendHeader_def Let_def)
  then show "let h = runAPIHandler send tid
                       (Recv (AgentToControllerWrapper_HttpResponse resp) # rest) ep
                       newResponseWriter r
             in returned h \<and> cleanClose h \<and> \<not> panicked h
                \<and> wroteHeader (rw h) \<and> statusCode (rw h) = sint (Status resp)
                \<and> (\<forall>key. map_of (sentHeader (rw h)) key =
                      (if valuesFor key (Headers resp) = [] then None
                       else Some (valuesFor key (Headers resp))))
                \<and> written (rw h) = []"
    by (simp add: finish_def map_of_copyHeaders_fresh)
next
  assume "sint (ContentLength resp) < 0 \<and> carriesBody r resp"
  then have neg: "sint (ContentLength resp) < 0" by simp
  then have nz: "ContentLength resp \<noteq> 0" by auto
  let ?w = "\<lparr>wHeader = copyHeaders (Headers resp) [], wroteHeader = True,
            statusCode = sint (Status resp), sentHeader = copyHeaders (Headers resp) [],
            written = []\<rparr>"
  have wrote: "wroteHeader ?w" by simp
  have start: "\<And>more. runAPIHandler send tid
             (Recv (AgentToControllerWrapper_HttpResponse resp) # more) ep newResponseWriter r =
         runAPIHandler_loop True True ?w (rHeader r) [(ep, newHttpRequest tid ep r)] more"
    using response_then [of send ep tid r sid resp] assms(1-3) nz neg by simp
  have fl: "\<And>bs. concat (map (\<lambda>b. if True then [Write b, Flush] else [Write b]) bs) =
                 concat (map (\<lambda>b. [Write b, Flush]) bs)"
    by simp
  show "let h = runAPIHandler send tid
                       (Recv (AgentToControllerWrapper_HttpResponse resp) # map Recv fs) ep
                       newResponseWriter r
             in written (rw h) =
                  concat (map (\<lambda>b. [Write b, Flush]) (takeWhile (\<lambda>b. b \<noteq> []) (chunkBodies fs)))
                \<and> bodyOf (written (rw h)) = concat (takeWhile (\<lambda>b. b \<noteq> []) (chunkBodies fs))
                \<and> wroteHeader (rw h) \<and> statusCode (rw h) = sint (Status resp)
                \<and> (\<forall>key. map_of (sentHeader (rw h)) key =
                      (if valuesFor key (Headers resp) = [] then None
                       else Some (valuesFor key (Headers resp))))
                \<and> (returned h \<longleftrightarrow> [] \<in> set (chunkBodies fs))
                \<and> (cleanClose h \<longleftrightarrow> [] \<in> set (chunkBodies fs))
                \<and> \<not> panicked h
                \<and> ([] \<in> set (chunkBodies fs) \<longrightarrow>
                     runAPIHandler send tid
                       (Recv (AgentToControllerWrapper_HttpResponse resp) # map Recv fs @ rest) ep
                       newResponseWriter r = h)"
    unfolding start Let_def
    by (simp add: loop_frames [OF wrote assms(4)] loop_frames_blocked [OF wrote assms(4)]
        finish_def bodyOf_writes_flushed map_of_copyHeaders_fresh)
qed

theorem response_zero_length_or_chunked_witness:
  "sendTo ''s'' \<lparr>asName = ''east'', EndpointType = ''kubernetes'', EndpointName = ''default'', Session = []\<rparr> (newHttpRequest ''t'' \<lparr>asName = ''east'', EndpointType = ''kubernetes'', EndpointName = ''default'', Session = []\<rparr> \<lparr>Method = ''GET'', RequestURI = ''/api'', rHeader = [], rBody = [],
        PeerCertificates = [], BasicAuth = None\<rparr>) = Some ''s''
   \<and> 100 \<le> sint (Status \<lparr>respId = ''t'', Status = 200, Headers = [], ContentLength = - 1\<rparr>) \<and> sint (Status \<lparr>respId = ''t'', Status = 200, Headers = [], ContentLength = - 1\<rparr>) \<le> 999
   \<and> sint (ContentLength \<lparr>respId = ''t'', Status = 200, Headers = [], ContentLength = - 1\<rparr>) < 0
   \<and> carriesBody \<lparr>Method = ''GET'', RequestURI = ''/api'', rHeader = [], rBody = [],
        PeerCertificates = [], BasicAuth = None\<rparr> \<lparr>respId = ''t'', Status = 200, Headers = [], ContentLength = - 1\<rparr>
   \<and> \<not> isHttpResponse (AgentToControllerWrapper_PingRequest 7)
   \<and> [] \<in> set (chunkBodies [AgentToControllerWrapper_HttpChunkedResponse \<lparr>chunkId = ''t'', chunkBody = ''a''\<rparr>,
          AgentToControllerWrapper_PingRequest 7,
          AgentToControllerWrapper_HttpChunkedResponse \<lparr>chunkId = ''t'', chunkBody = ''bc''\<rparr>,
          AgentToControllerWrapper_HttpChunkedResponse \<lparr>chunkId = ''t'', chunkBody = []\<rparr>])
   \<and> written (rw (runAPIHandler (sendTo ''s'') ''t''
         (Recv (AgentToControllerWrapper_HttpResponse \<lparr>respId = ''t'', Status = 200, Headers = [], ContentLength = - 1\<rparr>) # map Recv [AgentToControllerWrapper_HttpChunkedResponse \<lparr>chunkId = ''t'', chunkBody = ''a''\<rparr>,
          AgentToControllerWrapper_PingRequest 7,
          AgentToControllerWrapper_HttpChunkedResponse \<lparr>chunkId = ''t'', chunkBody = ''bc''\<rparr>,
          AgentToControllerWrapper_HttpChunkedResponse \<lparr>chunkId = ''t'', chunkBody = []\<rparr>])
         \<lparr>asName = ''east'', EndpointType = ''kubernetes'', EndpointName = ''default'', Session = []\<rparr> newResponseWriter \<lparr>Method = ''GET'', RequestURI = ''/api'', rHeader = [], rBody = [],
        PeerCertificates = [], BasicAuth = None\<rparr>)) = [Write ''a'', Flush, Write ''bc'', Flush]
   \<and> bodyOf (written (rw (runAPIHandler (sendTo ''s'') ''t''
         (Recv (AgentToControllerWrapper_HttpResponse \<lparr>respId = ''t'', Status = 200, Headers = [], ContentLength = - 1\<rparr>) # map Recv [AgentToControllerWrapper_HttpChunkedResponse \<lparr>chunkId = ''t'', chunkBody = ''a''\<rparr>,
          AgentToControllerWrapper_PingRequest 7,
          AgentToControllerWrapper_HttpChunkedResponse \<lparr>chunkId = ''t'', chunkBody = ''bc''\<rparr>,
          AgentToControllerWrapper_HttpChunkedResponse \<lparr>chunkId = ''t'', chunkBody = []\<rparr>])
         \<lparr>asName = ''east'', EndpointType = ''kubernetes'', EndpointName = ''default'', Session = []\<rparr> newResponseWriter \<lparr>Method = ''GET'', RequestURI = ''/api'', rHeader = [], rBody = [],
        PeerCertificates = [], BasicAuth = None\<rparr>))) = ''abc''
   \<and> statusCode (rw (runAPIHandler (sendTo ''s'') ''t''
         (Recv (AgentToControllerWrapper_HttpResponse \<lparr>respId = ''t'', Status = 200, Headers = [], ContentLength = - 1\<rparr>) # map Recv [AgentToControllerWrapper_HttpChunkedResponse \<lparr>chunkId = ''t'', chunkBody = ''a''\<rparr>,
          AgentToControllerWrapper_PingRequest 7,
          AgentToControllerWrapper_HttpChunkedResponse \<lparr>chunkId = ''t'', chunkBody = ''bc''\<rparr>,
          AgentToControllerWrapper_HttpChunkedResponse \<lparr>chunkId = ''t'', chunkBody = []\<rparr>])
         \<lparr>asName = ''east'', EndpointType = ''kubernetes'', EndpointName = ''default'', Session = []\<rparr> newResponseWriter \<lparr>Method = ''GET'', RequestURI = ''/api'', rHeader = [], rBody = [],
        PeerCertificates = [], BasicAuth = None\<rparr>)) = 200
   \<and> returned (runAPIHandler (sendTo ''s'') ''t''
         (Recv (AgentToControllerWrapper_HttpResponse \<lparr>respId = ''t'', Status = 200, Headers = [], ContentLength = - 1\<rparr>) # map Recv [AgentToControllerWrapper_HttpChunkedResponse \<lparr>chunkId = ''t'', chunkBody = ''a''\<rparr>,
          AgentToControllerWrapper_PingRequest 7,
          AgentToControllerWrapper_HttpChunkedResponse \<lparr>chunkId = ''t'', chunkBody = ''bc''\<rparr>,
          AgentToControllerWrapper_HttpChunkedResponse \<lparr>chunkId = ''t'', chunkBody = []\<rparr>])
         \<lparr>asName = ''east'', EndpointType = ''kubernetes'', EndpointName = ''default'', Session = []\<rparr> newResponseWriter \<lparr>Method = ''GET'', RequestURI = ''/api'', rHeader = [], rBody = [],
        PeerCertificates = [], BasicAuth = None\<rparr>)
   \<and> ContentLength \<lparr>respId = ''t'', Status = 204, Headers = [HttpHeader ''x-served-by'' [''agent'']],
          ContentLength = 0\<rparr> = 0
   \<and> 100 \<le> sint (Status \<lparr>respId = ''t'', Status = 204, Headers = [HttpHeader ''x-served-by'' [''agent'']],
          ContentLength = 0\<rparr>) \<and> sint (Status \<lparr>respId = ''t'', Status = 204, Headers = [HttpHeader ''x-served-by'' [''agent'']],
          ContentLength = 0\<rparr>) \<le> 999
   \<and> returned (runAPIHandler (sendTo ''s'') ''t''
         [Recv (AgentToControllerWrapper_HttpResponse \<lparr>respId = ''t'', Status = 204, Headers = [HttpHeader ''x-served-by'' [''agent'']],
          ContentLength = 0\<rparr>),
          Recv (AgentToControllerWrapper_HttpChunkedResponse \<lparr>chunkId = ''t'', chunkBody = ''late''\<rparr>)]
         \<lparr>asName = ''east'', EndpointType = ''kubernetes'', EndpointName = ''default'', Session = []\<rparr> newResponseWriter \<lparr>Method = ''GET'', RequestURI = ''/api'', rHeader = [], rBody = [],
        PeerCertificates = [], BasicAuth = None\<rparr>)
   \<and> statusCode (rw (runAPIHandler (sendTo ''s'') ''t''
         [Recv (AgentToControllerWrapper_HttpResponse \<lparr>respId = ''t'', Status = 204, Headers = [HttpHeader ''x-served-by'' [''agent'']],
          ContentLength = 0\<rparr>),
          Recv (AgentToControllerWrapper_HttpChunkedResponse \<lparr>chunkId = ''t'', chunkBody = ''late''\<rparr>)]
         \<lparr>asName = ''east'', EndpointType = ''kubernetes'', EndpointName = ''default'', Session = []\<rparr> newResponseWriter \<lparr>Method = ''GET'', RequestURI = ''/api'', rHeader = [], rBody = [],
        PeerCertificates = [], BasicAuth = None\<rparr>)) = 204
   \<and> map_of (sentHeader (rw (runAPIHandler (sendTo ''s'') ''t''
         [Recv (AgentToControllerWrapper_HttpResponse \<lparr>respId = ''t'', Status = 204, Headers = [HttpHeader ''x-served-by'' [''agent'']],
          ContentLength = 0\<rparr>),
          Recv (AgentToControllerWrapper_HttpChunkedResponse \<lparr>chunkId = ''t'', chunkBody = ''late''\<rparr>)]
         \<lparr>asName = ''east'', EndpointType = ''kubernetes'', EndpointName = ''default'', Session = []\<rparr> newResponseWriter \<lparr>Method = ''GET'', RequestURI = ''/api'', rHeader = [], rBody = [],
        PeerCertificates = [], BasicAuth = None\<rparr>))) ''X-Served-By'' = Some [''agent'']
   \<and> written (rw (runAPIHandler (sendTo ''s'') ''t''
         [Recv (AgentToControllerWrapper_HttpResponse \<lparr>respId = ''t'', Status = 204, Headers = [HttpHeader ''x-served-by'' [''agent'']],
          ContentLength = 0\<rparr>),
          Recv (AgentToControllerWrapper_HttpChunkedResponse \<lparr>chunkId = ''t'', chunkBody = ''late''\<rparr>)]
         \<lparr>asName = ''east'', EndpointType = ''kubernetes'', EndpointName = ''default'', Session = []\<rparr> newResponseWriter \<lparr>Method = ''GET'', RequestURI = ''/api'', rHeader = [], rBody = [],
        PeerCertificates = [], BasicAuth = None\<rparr>)) = []"
proof -
  have body: "carriesBody \<lparr>Method = ''GET'', RequestURI = ''/api'', rHeader = [], rBody = [],
        PeerCertificates = [], BasicAuth = None\<rparr> \<lparr>respId = ''t'', Status = 200, Headers = [], ContentLength = - 1\<rparr>"
    by (simp add: carriesBody_def bodyAllowedForStatus_def valuesFor_def)
  have vals: "valuesFor ''X-Served-By'' (Headers \<lparr>respId = ''t'', Status = 204, Headers = [HttpHeader ''x-served-by'' [''agent'']],
          ContentLength = 0\<rparr>) = [''agent'']"
    by code_simp
  have chunked: "written (rw (runAPIHandler (sendTo ''s'') ''t''
         (Recv (AgentToControllerWrapper_HttpResponse \<lparr>respId = ''t'', Status = 200, Headers = [], ContentLength = - 1\<rparr>) # map Recv [AgentToControllerWrapper_HttpChunkedResponse \<lparr>chunkId = ''t'', chunkBody = ''a''\<rparr>,
          AgentToControllerWrapper_PingRequest 7,
          AgentToControllerWrapper_HttpChunkedResponse \<lparr>chunkId = ''t'', chunkBody = ''bc''\<rparr>,
          AgentToControllerWrapper_HttpChunkedResponse \<lparr>chunkId = ''t'', chunkBody = []\<rparr>])
         \<lparr>asName = ''east'', EndpointType = ''kubernetes'', EndpointName = ''default'', Session = []\<rparr> newResponseWriter \<lparr>Method = ''GET'', RequestURI = ''/api'', rHeader = [], rBody = [],
        PeerCertificates = [], BasicAuth = None\<rparr>)) = [Write ''a'', Flush, Write ''bc'', Flush]
   \<and> bodyOf (written (rw (runAPIHandler (sendTo ''s'') ''t''
         (Recv (AgentToControllerWrapper_HttpResponse \<lparr>respId = ''t'', Status = 200, Headers = [], ContentLength = - 1\<rparr>) # map Recv [AgentToControllerWrapper_HttpChunkedResponse \<lparr>chunkId = ''t'', chunkBody = ''a''\<rparr>,
          AgentToControllerWrapper_PingRequest 7,
          AgentToControllerWrapper_HttpChunkedResponse \<lparr>chunkId = ''t'', chunkBody = ''bc''\<rparr>,
          AgentToControllerWrapper_HttpChunkedResponse \<lparr>chunkId = ''t'', chunkBody = []\<rparr>])
         \<lparr>asName = ''east'', EndpointType = ''kubernetes'', EndpointName = ''default'', Session = []\<rparr> newResponseWriter \<lparr>Method = ''GET'', RequestURI = ''/api'', rHeader = [], rBody = [],
        PeerCertificates = [], BasicAuth = None\<rparr>))) = ''abc''
   \<and> statusCode (rw (runAPIHandler (sendTo ''s'') ''t''
         (Recv (AgentToControllerWrapper_HttpResponse \<lparr>respId = ''t'', Status = 200, Headers = [], ContentLength = - 1\<rparr>) # map Recv [AgentToControllerWrapper_HttpChunkedResponse \<lparr>chunkId = ''t'', chunkBody = ''a''\<rparr>,
          AgentToControllerWrapper_PingRequest 7,
          AgentToControllerWrapper_HttpChunkedResponse \<lparr>chunkId = ''t'', chunkBody = ''bc''\<rparr>,
          AgentToControllerWrapper_HttpChunkedResponse \<lparr>chunkId = ''t'', chunkBody = []\<rparr>])
         \<lparr>asName = ''east'', EndpointType = ''kubernetes'', EndpointName = ''default'', Session = []\<rparr> newResponseWriter \<lparr>Method = ''GET'', RequestURI = ''/api'', rHeader = [], rBody = [],
        PeerCertificates = [], BasicAuth = None\<rparr>)) = 200
   \<and> returned (runAPIHandler (sendTo ''s'') ''t''
         (Recv (AgentToControllerWrapper_HttpResponse \<lparr>respId = ''t'', Status = 200, Headers = [], ContentLength = - 1\<rparr>) # map Recv [AgentToControllerWrapper_HttpChunkedResponse \<lparr>chunkId = ''t'', chunkBody = ''a''\<rparr>,
          AgentToControllerWrapper_PingRequest 7,
          AgentToControllerWrapper_HttpChunkedResponse \<lparr>chunkId = ''t'', chunkBody = ''bc''\<rparr>,
          AgentToControllerWrapper_HttpChunkedResponse \<lparr>chunkId = ''t'', chunkBody = []\<rparr>])
         \<lparr>asName = ''east'', EndpointType = ''kubernetes'', EndpointName = ''default'', Session = []\<rparr> newResponseWriter \<lparr>Method = ''GET'', RequestURI = ''/api'', rHeader = [], rBody = [],
        PeerCertificates = [], BasicAuth = None\<rparr>)"
    using response_zero_length_or_chunked [of "sendTo ''s''" "\<lparr>asName = ''east'', EndpointType = ''kubernetes'', EndpointName = ''default'', Session = []\<rparr>" "''t''" "\<lparr>Method = ''GET'', RequestURI = ''/api'', rHeader = [], rBody = [],
        PeerCertificates = [], BasicAuth = None\<rparr>" "''s''" "\<lparr>respId = ''t'', Status = 200, Headers = [], ContentLength = - 1\<rparr>" "[AgentToControllerWrapper_HttpChunkedResponse \<lparr>chunkId = ''t'', chunkBody = ''a''\<rparr>,
          AgentToControllerWrapper_PingRequest 7,
          AgentToControllerWrapper_HttpChunkedResponse \<lparr>chunkId = ''t'', chunkBody = ''bc''\<rparr>,
          AgentToControllerWrapper_HttpChunkedResponse \<lparr>chunkId = ''t'', chunkBody = []\<rparr>]" "[]"] body
    by (simp add: sendTo_def Let_def)
  have empty: "returned (runAPIHandler (sendTo ''s'') ''t''
         [Recv (AgentToControllerWrapper_HttpResponse \<lparr>respId = ''t'', Status = 204, Headers = [HttpHeader ''x-served-by'' [''agent'']],
          ContentLength = 0\<rparr>),
          Recv (AgentToControllerWrapper_HttpChunkedResponse \<lparr>chunkId = ''t'', chunkBody = ''late''\<rparr>)]
         \<lparr>asName = ''east'', EndpointType = ''kubernetes'', EndpointName = ''default'', Session = []\<rparr> newResponseWriter \<lparr>Method = ''GET'', RequestURI = ''/api'', rHeader = [], rBody = [],
        PeerCertificates = [], BasicAuth = None\<rparr>)
   \<and> statusCode (rw (runAPIHandler (sendTo ''s'') ''t''
         [Recv (AgentToControllerWrapper_HttpResponse \<lparr>respId = ''t'', Status = 204, Headers = [HttpHeader ''x-served-by'' [''agent'']],
          ContentLength = 0\<rparr>),
          Recv (AgentToControllerWrapper_HttpChunkedResponse \<lparr>chunkId = ''t'', chunkBody = ''late''\<rparr>)]
         \<lparr>asName = ''east'', EndpointType = ''kubernetes'', EndpointName = ''default'', Session = []\<rparr> newResponseWriter \<lparr>Method = ''GET'', RequestURI = ''/api'', rHeader = [], rBody = [],
        PeerCertificates = [], BasicAuth = None\<rparr>)) = 204
   \<and> map_of (sentHeader (rw (runAPIHandler (sendTo ''s'') ''t''
         [Recv (AgentToControllerWrapper_HttpResponse \<lparr>respId = ''t'', Status = 204, Headers = [HttpHeader ''x-served-by'' [''agent'']],
          ContentLength = 0\<rparr>),
          Recv (AgentToControllerWrapper_HttpChunkedResponse \<lparr>chunkId = ''t'', chunkBody = ''late''\<rparr>)]
         \<lparr>asName = ''east'', EndpointType = ''kubernetes'', EndpointName = ''default'', Session = []\<rparr> newResponseWriter \<lparr>Method = ''GET'', RequestURI = ''/api'', rHeader = [], rBody = [],
        PeerCertificates = [], BasicAuth = None\<rparr>))) ''X-Served-By'' = Some [''agent'']
   \<and> written (rw (runAPIHandler (sendTo ''s'') ''t''
         [Recv (AgentToControllerWrapper_HttpResponse \<lparr>respId = ''t'', Status = 204, Headers = [HttpHeader ''x-served-by'' [''agent'']],
          ContentLength = 0\<rparr>),
          Recv (AgentToControllerWrapper_HttpChunkedResponse \<lparr>chunkId = ''t'', chunkBody = ''late''\<rparr>)]
         \<lparr>asName = ''east'', EndpointType = ''kubernetes'', EndpointName = ''default'', Session = []\<rparr> newResponseWriter \<lparr>Method = ''GET'', RequestURI = ''/api'', rHeader = [], rBody = [],
        PeerCertificates = [], BasicAuth = None\<rparr>)) = []"
    using response_zero_length_or_chunked [of "sendTo ''s''" "\<lparr>asName = ''east'', EndpointType = ''kubernetes'', EndpointName = ''default'', Session = []\<rparr>" "''t''" "\<lparr>Method = ''GET'', RequestURI = ''/api'', rHeader = [], rBody = [],
        PeerCertificates = [], BasicAuth = None\<rparr>" "''s''" "\<lparr>respId = ''t'', Status = 204, Headers = [HttpHeader ''x-served-by'' [''agent'']],
          ContentLength = 0\<rparr>" "[]"
        "[Recv (AgentToControllerWrapper_HttpChunkedResponse \<lparr>chunkId = ''t'', chunkBody = ''late''\<rparr>)]"]
      vals
    by (simp add: sendTo_def Let_def)
  show ?thesis
    using chunked empty body by (simp add: sendTo_def)
qed

section \<open>Properties of command execution on the agent\<close>

lemma outputSender_channel: "m \<in> set (outputSender ch reads) \<Longrightarrow> channel m = ch"
  by (induction ch reads rule: outputSender.induct) (auto split: if_splits)

lemma outputSender_closed_le: "length (filter closed (outputSender ch reads)) \<le> 1"
  by (induction ch reads rule: outputSender.induct) auto

lemma outputSender_closed_eq:
  "\<exists>x\<in>set reads. snd x \<noteq> None \<Longrightarrow> length (filter closed (outputSender ch reads)) = 1"
  by (induction ch reads rule: outputSender.induct) auto

lemma aggregate_filter_le:
  "length (filter P (aggregate sched outs errs)) \<le> length (filter P outs) + length (filter P errs)"
  by (induction sched outs errs rule: aggregate.induct) auto

lemma aggregate_filter_eq:
  "length (aggregate sched outs errs) = length outs + length errs \<Longrightarrow>
   length (filter P (aggregate sched outs errs)) = length (filter P outs) + length (filter P errs)"
proof (induction sched outs errs rule: aggregate.induct)
  case (3 sched errs)
  then show ?case by simp
next
  case (5 sched outs)
  then show ?case by simp
qed auto

lemma loop_only_data: "f \<in> set (fst (runCommand_loop req n ms)) \<Longrightarrow> isCommandData f"
  by (induction req n ms arbitrary: f rule: runCommand_loop.induct)
     (auto simp: makeCommandData_def makeCommandDataClosed_def split: if_splits prod.splits)

lemma loop_closed_le:
  "length (filter (isClosedFor ch) (fst (runCommand_loop req n ms)))
     \<le> length (filter (\<lambda>m. closed m \<and> channel m = ch) ms)"
  by (induction req n ms rule: runCommand_loop.induct)
     (auto simp: makeCommandData_def makeCommandDataClosed_def split: if_splits prod.splits)

lemma loop_left_count:
  "snd (runCommand_loop req n ms) \<Longrightarrow> 1 \<le> n \<Longrightarrow>
   int (length (filter (isClosedFor STDIN) (fst (runCommand_loop req n ms)))
      + length (filter (isClosedFor STDOUT) (fst (runCommand_loop req n ms)))
      + length (filter (isClosedFor STDERR) (fst (runCommand_loop req n ms)))) = n"
proof (induction req n ms rule: runCommand_loop.induct)
  case (1 req activeCount)
  then show ?case by simp
next
  case (2 req activeCount msg rest)
  then show ?case
    by (cases "channel msg")
       (auto simp: makeCommandData_def makeCommandDataClosed_def split: if_splits prod.splits)
qed

lemma loop_leaves:
  "1 \<le> n \<Longrightarrow> n \<le> int (length (filter closed ms)) \<Longrightarrow> snd (runCommand_loop req n ms)"
  by (induction req n ms rule: runCommand_loop.induct)
     (auto split: if_splits prod.splits)


lemma filter_closed_channel_le:
  "length (filter (\<lambda>m. closed m \<and> channel m = c) (outputSender ch reads)) \<le> 1"
proof -
  have "length (filter (\<lambda>m. closed m \<and> channel m = c) (outputSender ch reads))
          \<le> length (filter closed (outputSender ch reads))"
    by (induction ch reads rule: outputSender.induct) auto
  then show ?thesis using outputSender_closed_le [of ch reads] by linarith
qed

lemma filter_other_channel:
  "c \<noteq> ch \<Longrightarrow> filter (\<lambda>m. closed m \<and> channel m = c) (outputSender ch reads) = []"
  by (auto simp: filter_empty_conv dest: outputSender_channel)

lemma aggregated_closed_le:
  "length (filter (\<lambda>m. closed m \<and> channel m = STDOUT)
      (aggregate sched (outputSender STDOUT rs1) (outputSender STDERR rs2))) \<le> 1"
  "length (filter (\<lambda>m. closed m \<and> channel m = STDERR)
      (aggregate sched (outputSender STDOUT rs1) (outputSender STDERR rs2))) \<le> 1"
  "length (filter (\<lambda>m. closed m \<and> channel m = STDIN)
      (aggregate sched (outputSender STDOUT rs1) (outputSender STDERR rs2))) = 0"
proof -
  let ?outs = "outputSender STDOUT rs1" and ?errs = "outputSender STDERR rs2"
  show "length (filter (\<lambda>m. closed m \<and> channel m = STDOUT) (aggregate sched ?outs ?errs)) \<le> 1"
    using aggregate_filter_le [of "\<lambda>m. closed m \<and> channel m = STDOUT" sched ?outs ?errs]
      filter_closed_channel_le [of STDOUT STDOUT rs1]
      filter_other_channel [of STDOUT STDERR rs2]
    by simp
  show "length (filter (\<lambda>m. closed m \<and> channel m = STDERR) (aggregate sched ?outs ?errs)) \<le> 1"
    using aggregate_filter_le [of "\<lambda>m. closed m \<and> channel m = STDERR" sched ?outs ?errs]
      filter_closed_channel_le [of STDERR STDERR rs2]
      filter_other_channel [of STDERR STDOUT rs1]
    by simp
  show "length (filter (\<lambda>m. closed m \<and> channel m = STDIN) (aggregate sched ?outs ?errs)) = 0"
    using aggregate_filter_le [of "\<lambda>m. closed m \<and> channel m = STDIN" sched ?outs ?errs]
      filter_other_channel [of STDIN STDOUT rs1]
      filter_other_channel [of STDIN STDERR rs2]
    by simp
qed

lemma runCommand_started:
  assumes "StdoutPipe_err p = None" and "StderrPipe_err p = None" and "Start_err p = None"
  shows "runCommand p req =
            (let res = runCommand_loop req 2
                    (aggregate (schedule p) (outputSender STDOUT (stdout_reads p))
                       (outputSender STDERR (stderr_reads p)));
                 t = (case Wait_result p of
                        WaitExitError (Some status) \<Rightarrow> makeCommandTermination req status
                      | WaitExitError None \<Rightarrow> makeCommandTermination req 0
                      | WaitError err \<Rightarrow> makeCommandFailed req (Some err) ''Wait()''
                      | WaitNil \<Rightarrow> makeCommandTermination req 0)
             in if snd res then (fst res @ [t], True) else (fst res, False))"
  using assms
  by (simp add: runCommand_def Let_def split: prod.splits option.splits waitResult.splits)

lemma wait_frame_is_termination:
  "isTermination (case w of
                        WaitExitError (Some status) \<Rightarrow> makeCommandTermination req status
                      | WaitExitError None \<Rightarrow> makeCommandTermination req 0
                      | WaitError err \<Rightarrow> makeCommandFailed req (Some err) ''Wait()''
                      | WaitNil \<Rightarrow> makeCommandTermination req 0)"
  by (simp add: makeCommandTermination_def makeCommandFailed_def
      split: waitResult.splits option.splits)

text \<open>
  Claim C7, for a command that was started (the two pipes and \<open>Start\<close> gave no error).
  When \<open>runCommand\<close> has returned, the frames on \<open>dataflow\<close> are \<open>CommandData\<close>
  frames, among them exactly one with \<open>closed\<close> for STDOUT and exactly one for STDERR,
  followed by one \<open>CommandTermination\<close> as the last frame. While it has not returned,
  only \<open>CommandData\<close> frames have been sent (no termination), with at most one
  \<open>closed\<close> frame per channel. It does return when both pipes end (a read gives
  \<open>io.EOF\<close> or an error) and every message of the two senders gets through the
  aggregation channel.
\<close>

theorem runCommand_closes_both_before_termination:
  assumes "StdoutPipe_err p = None" and "StderrPipe_err p = None" and "Start_err p = None"
  shows "(snd (runCommand p req) \<longrightarrow>
            (\<exists>pre t. fst (runCommand p req) = pre @ [t] \<and> isTermination t
               \<and> (\<forall>f\<in>set pre. isCommandData f)
               \<and> length (filter (isClosedFor STDOUT) pre) = 1
               \<and> length (filter (isClosedFor STDERR) pre) = 1))
       \<and> (\<not> snd (runCommand p req) \<longrightarrow>
            (\<forall>f\<in>set (fst (runCommand p req)). isCommandData f)
            \<and> length (filter (isClosedFor STDOUT) (fst (runCommand p req))) \<le> 1
            \<and> length (filter (isClosedFor STDERR) (fst (runCommand p req))) \<le> 1)
       \<and> ((\<exists>x\<in>set (stdout_reads p). snd x \<noteq> None) \<and> (\<exists>x\<in>set (stderr_reads p). snd x \<noteq> None)
           \<and> length (aggregate (schedule p) (outputSender STDOUT (stdout_reads p))
                        (outputSender STDERR (stderr_reads p)))
               = length (outputSender STDOUT (stdout_reads p))
                 + length (outputSender STDERR (stderr_reads p))
          \<longrightarrow> snd (runCommand p req))"
proof -
  let ?outs = "outputSender STDOUT (stdout_reads p)"
  let ?errs = "outputSender STDERR (stderr_reads p)"
  let ?msgs = "aggregate (schedule p) ?outs ?errs"
  let ?res = "runCommand_loop req 2 ?msgs"
  obtain t where t: "isTermination t"
    and rc: "runCommand p req = (if snd ?res then (fst ?res @ [t], True) else (fst ?res, False))"
    using runCommand_started [OF assms, of req] wait_frame_is_termination [of req "Wait_result p"]
    by (auto simp: Let_def)
  have data: "\<forall>f\<in>set (fst ?res). isCommandData f"
    using loop_only_data by blast
  have out1: "length (filter (isClosedFor STDOUT) (fst ?res)) \<le> 1"
    using loop_closed_le [of STDOUT req 2 ?msgs] aggregated_closed_le(1) [of "schedule p" "stdout_reads p" "stderr_reads p"]
    by linarith
  have err1: "length (filter (isClosedFor STDERR) (fst ?res)) \<le> 1"
    using loop_closed_le [of STDERR req 2 ?msgs] aggregated_closed_le(2) [of "schedule p" "stdout_reads p" "stderr_reads p"]
    by linarith
  have in0: "length (filter (isClosedFor STDIN) (fst ?res)) = 0"
    using loop_closed_le [of STDIN req 2 ?msgs] aggregated_closed_le(3) [of "schedule p" "stdout_reads p" "stderr_reads p"]
    by linarith
  have both: "snd ?res \<Longrightarrow> length (filter (isClosedFor STDOUT) (fst ?res)) = 1
                \<and> length (filter (isClosedFor STDERR) (fst ?res)) = 1"
    using loop_left_count [of req 2 ?msgs] out1 err1 in0 by linarith
  have A: "snd (runCommand p req) \<longrightarrow>
            (\<exists>pre t. fst (runCommand p req) = pre @ [t] \<and> isTermination t
               \<and> (\<forall>f\<in>set pre. isCommandData f)
               \<and> length (filter (isClosedFor STDOUT) pre) = 1
               \<and> length (filter (isClosedFor STDERR) pre) = 1)"
  proof
    assume "snd (runCommand p req)"
    then have left: "snd ?res" using rc by (simp split: if_splits)
    then have "fst (runCommand p req) = fst ?res @ [t]" using rc by simp
    then show "\<exists>pre t. fst (runCommand p req) = pre @ [t] \<and> isTermination t
               \<and> (\<forall>f\<in>set pre. isCommandData f)
               \<and> length (filter (isClosedFor STDOUT) pre) = 1
               \<and> length (filter (isClosedFor STDERR) pre) = 1"
      using t data both [OF left] by blast
  qed
  have B: "\<not> snd (runCommand p req) \<longrightarrow>
            (\<forall>f\<in>set (fst (runCommand p req)). isCommandData f)
            \<and> length (filter (isClosedFor STDOUT) (fst (runCommand p req))) \<le> 1
            \<and> length (filter (isClosedFor STDERR) (fst (runCommand p req))) \<le> 1"
  proof
    assume "\<not> snd (runCommand p req)"
    then have "fst (runCommand p req) = fst ?res" using rc by (simp split: if_splits)
    then show "(\<forall>f\<in>set (fst (runCommand p req)). isCommandData f)
            \<and> length (filter (isClosedFor STDOUT) (fst (runCommand p req))) \<le> 1
            \<and> length (filter (isClosedFor STDERR) (fst (runCommand p req))) \<le> 1"
      using data out1 err1 by simp
  qed
  have C: "(\<exists>x\<in>set (stdout_reads p). snd x \<noteq> None) \<and> (\<exists>x\<in>set (stderr_reads p). snd x \<noteq> None)
           \<and> length ?msgs = length ?outs + length ?errs
          \<longrightarrow> snd (runCommand p req)"
  proof
    assume h: "(\<exists>x\<in>set (stdout_reads p). snd x \<noteq> None) \<and> (\<exists>x\<in>set (stderr_reads p). snd x \<noteq> None)
           \<and> length ?msgs = length ?outs + length ?errs"
    then have "length (filter closed ?msgs) = length (filter closed ?outs) + length (filter closed ?errs)"
      using aggregate_filter_eq [of "schedule p" ?outs ?errs closed] by simp
    moreover have "length (filter closed ?outs) = 1"
      using h outputSender_closed_eq by blast
    moreover have "length (filter closed ?errs) = 1"
      using h outputSender_closed_eq by blast
    ultimately have "length (filter closed ?msgs) = 2" by simp
    then have "snd ?res" using loop_leaves [of 2 ?msgs req] by simp
    then show "snd (runCommand p req)" using rc by simp
  qed
  show ?thesis using A B C by blast
qed

theorem runCommand_closes_both_before_termination_witness:
  "StdoutPipe_err \<lparr>StdoutPipe_err = None, StderrPipe_err = None, Start_err = None,
        stdout_reads = [(''hi'', None), ([], Some EOF)], stderr_reads = [([], Some EOF)],
        schedule = [True, True, False], Wait_result = WaitNil\<rparr> = None
   \<and> StderrPipe_err \<lparr>StdoutPipe_err = None, StderrPipe_err = None, Start_err = None,
        stdout_reads = [(''hi'', None), ([], Some EOF)], stderr_reads = [([], Some EOF)],
        schedule = [True, True, False], Wait_result = WaitNil\<rparr> = None
   \<and> Start_err \<lparr>StdoutPipe_err = None, StderrPipe_err = None, Start_err = None,
        stdout_reads = [(''hi'', None), ([], Some EOF)], stderr_reads = [([], Some EOF)],
        schedule = [True, True, False], Wait_result = WaitNil\<rparr> = None
   \<and> (\<exists>x\<in>set (stdout_reads \<lparr>StdoutPipe_err = None, StderrPipe_err = None, Start_err = None,
        stdout_reads = [(''hi'', None), ([], Some EOF)], stderr_reads = [([], Some EOF)],
        schedule = [True, True, False], Wait_result = WaitNil\<rparr>). snd x \<noteq> None)
   \<and> (\<exists>x\<in>set (stderr_reads \<lparr>StdoutPipe_err = None, StderrPipe_err = None, Start_err = None,
        stdout_reads = [(''hi'', None), ([], Some EOF)], stderr_reads = [([], Some EOF)],
        schedule = [True, True, False], Wait_result = WaitNil\<rparr>). snd x \<noteq> None)
   \<and> length (aggregate (schedule \<lparr>StdoutPipe_err = None, StderrPipe_err = None, Start_err = None,
        stdout_reads = [(''hi'', None), ([], Some EOF)], stderr_reads = [([], Some EOF)],
        schedule = [True, True, False], Wait_result = WaitNil\<rparr>) (outputSender STDOUT (stdout_reads \<lparr>StdoutPipe_err = None, StderrPipe_err = None, Start_err = None,
        stdout_reads = [(''hi'', None), ([], Some EOF)], stderr_reads = [([], Some EOF)],
        schedule = [True, True, False], Wait_result = WaitNil\<rparr>))
         (outputSender STDERR (stderr_reads \<lparr>StdoutPipe_err = None, StderrPipe_err = None, Start_err = None,
        stdout_reads = [(''hi'', None), ([], Some EOF)], stderr_reads = [([], Some EOF)],
        schedule = [True, True, False], Wait_result = WaitNil\<rparr>))) =
       length (outputSender STDOUT (stdout_reads \<lparr>StdoutPipe_err = None, StderrPipe_err = None, Start_err = None,
        stdout_reads = [(''hi'', None), ([], Some EOF)], stderr_reads = [([], Some EOF)],
        schedule = [True, True, False], Wait_result = WaitNil\<rparr>)) + length (outputSender STDERR (stderr_reads \<lparr>StdoutPipe_err = None, StderrPipe_err = None, Start_err = None,
        stdout_reads = [(''hi'', None), ([], Some EOF)], stderr_reads = [([], Some EOF)],
        schedule = [True, True, False], Wait_result = WaitNil\<rparr>))
   \<and> runCommand \<lparr>StdoutPipe_err = None, StderrPipe_err = None, Start_err = None,
        stdout_reads = [(''hi'', None), ([], Some EOF)], stderr_reads = [([], Some EOF)],
        schedule = [True, True, False], Wait_result = WaitNil\<rparr> \<lparr>cmdId = ''c1'', cmdName = ''echo'', Arguments = [''hi''], Environment = []\<rparr> =
      ([AgentToControllerWrapper_CommandData
          \<lparr>dataId = ''c1'', dataBody = ''hi'', Channel = STDOUT, Closed = False\<rparr>,
        AgentToControllerWrapper_CommandData
          \<lparr>dataId = ''c1'', dataBody = [], Channel = STDOUT, Closed = True\<rparr>,
        AgentToControllerWrapper_CommandData
          \<lparr>dataId = ''c1'', dataBody = [], Channel = STDERR, Closed = True\<rparr>,
        AgentToControllerWrapper_CommandTermination
          \<lparr>termId = ''c1'', ExitCode = 0, Message = []\<rparr>], True)
   \<and> snd (runCommand \<lparr>StdoutPipe_err = None, StderrPipe_err = None, Start_err = None,
        stdout_reads = [(''hi'', None), ([], Some EOF)], stderr_reads = [([], Some EOF)],
        schedule = [True, True, False], Wait_result = WaitNil\<rparr> \<lparr>cmdId = ''c1'', cmdName = ''echo'', Arguments = [''hi''], Environment = []\<rparr>)
   \<and> \<not> snd (runCommand \<lparr>StdoutPipe_err = None, StderrPipe_err = None, Start_err = None,
        stdout_reads = [(''hi'', None), ([], Some EOF)], stderr_reads = [],
        schedule = [True, False, True], Wait_result = WaitNil\<rparr> \<lparr>cmdId = ''c1'', cmdName = ''echo'', Arguments = [''hi''], Environment = []\<rparr>)
   \<and> runCommand \<lparr>StdoutPipe_err = None, StderrPipe_err = None, Start_err = None,
        stdout_reads = [(''hi'', None), ([], Some EOF)], stderr_reads = [],
        schedule = [True, False, True], Wait_result = WaitNil\<rparr> \<lparr>cmdId = ''c1'', cmdName = ''echo'', Arguments = [''hi''], Environment = []\<rparr> =
      ([AgentToControllerWrapper_CommandData
          \<lparr>dataId = ''c1'', dataBody = ''hi'', Channel = STDOUT, Closed = False\<rparr>,
        AgentToControllerWrapper_CommandData
          \<lparr>dataId = ''c1'', dataBody = [], Channel = STDOUT, Closed = True\<rparr>], False)"
proof -
  let ?p = "\<lparr>StdoutPipe_err = None, StderrPipe_err = None, Start_err = None,
        stdout_reads = [(''hi'', None), ([], Some EOF)], stderr_reads = [([], Some EOF)],
        schedule = [True, True, False], Wait_result = WaitNil\<rparr>"
  let ?q = "\<lparr>StdoutPipe_err = None, StderrPipe_err = None, Start_err = None,
        stdout_reads = [(''hi'', None), ([], Some EOF)], stderr_reads = [],
        schedule = [True, False, True], Wait_result = WaitNil\<rparr>"
  let ?req = "\<lparr>cmdId = ''c1'', cmdName = ''echo'', Arguments = [''hi''], Environment = []\<rparr>"
  have started: "StdoutPipe_err ?p = None" "StderrPipe_err ?p = None" "Start_err ?p = None"
    by simp_all
  have returns: "snd (runCommand ?p ?req)"
    by (rule runCommand_closes_both_before_termination
          [OF started, THEN conjunct2, THEN conjunct2, THEN mp]) simp
  have run: "runCommand ?p ?req =
      ([AgentToControllerWrapper_CommandData
          \<lparr>dataId = ''c1'', dataBody = ''hi'', Channel = STDOUT, Closed = False\<rparr>,
        AgentToControllerWrapper_CommandData
          \<lparr>dataId = ''c1'', dataBody = [], Channel = STDOUT, Closed = True\<rparr>,
        AgentToControllerWrapper_CommandData
          \<lparr>dataId = ''c1'', dataBody = [], Channel = STDERR, Closed = True\<rparr>,
        AgentToControllerWrapper_CommandTermination
          \<lparr>termId = ''c1'', ExitCode = 0, Message = []\<rparr>], True)"
    by (simp add: runCommand_def makeCommandData_def makeCommandDataClosed_def
        makeCommandTermination_def)
  have blocked: "runCommand ?q ?req =
      ([AgentToControllerWrapper_CommandData
          \<lparr>dataId = ''c1'', dataBody = ''hi'', Channel = STDOUT, Closed = False\<rparr>,
        AgentToControllerWrapper_CommandData
          \<lparr>dataId = ''c1'', dataBody = [], Channel = STDOUT, Closed = True\<rparr>], False)"
    by (simp add: runCommand_def makeCommandData_def makeCommandDataClosed_def)
  show ?thesis
    unfolding run blocked using returns by simp
qed



section \<open>Properties of the command tool\<close>

lemma cmdtool_receive_data:
  assumes "\<forall>x\<in>set xs. \<not> isToolTermination x"
  shows "cmdtool_receive (map Received xs @ rest0) =
           (map (\<lambda>d. if ctChannel d = STDOUT then ToStdout (ctBody d) else ToStderr (ctBody d))
              (dataFrames xs) @ fst (cmdtool_receive rest0),
            snd (cmdtool_receive rest0))"
  using assms
proof (induction xs)
  case Nil
  then show ?case by simp
next
  case (Cons x xs)
  then show ?case by (cases x) (simp_all split: prod.splits)
qed

lemma stdoutOf_append: "stdoutOf (xs @ ys) = stdoutOf xs @ stdoutOf ys"
  by (induction xs rule: stdoutOf.induct) simp_all

lemma stderrOf_append: "stderrOf (xs @ ys) = stderrOf xs @ stderrOf ys"
  by (induction xs rule: stderrOf.induct) simp_all

lemma stdoutOf_data:
  "stdoutOf (map (\<lambda>d. if ctChannel d = STDOUT then ToStdout (ctBody d) else ToStderr (ctBody d)) ds)
     = concat (map ctBody (filter (\<lambda>d. ctChannel d = STDOUT) ds))"
  by (induction ds) simp_all

lemma stderrOf_data:
  "stderrOf (map (\<lambda>d. if ctChannel d = STDOUT then ToStdout (ctBody d) else ToStderr (ctBody d)) ds)
     = concat (map ctBody (filter (\<lambda>d. ctChannel d \<noteq> STDOUT) ds))"
  by (induction ds) simp_all

text \<open>
  Claim C9 says that the tool exits with exactly the exit code of the
  \<open>CommandTermination\<close> frame. The tool hands the code to \<open>os.Exit\<close>, and the exit
  status of the process is its low 8 bits: for the code -1, which the agent sends for a
  child that was killed by a signal, the tool exits with 255, and for 256 with 0.
\<close>

theorem cmdtool_exit_code_counterexample:
  "sint (ctExitCode \<lparr>ctExitCode = - 1, ctMessage = []\<rparr>) = - 1
   \<and> snd (cmdtool_runCommand None None
        [Received (ControllerToCmdToolWrapper_CommandTermination
           \<lparr>ctExitCode = - 1, ctMessage = []\<rparr>)]) = Some 255
   \<and> sint (ctExitCode \<lparr>ctExitCode = 256, ctMessage = []\<rparr>) = 256
   \<and> snd (cmdtool_runCommand None None
        [Received (ControllerToCmdToolWrapper_CommandTermination
           \<lparr>ctExitCode = 256, ctMessage = []\<rparr>)]) = Some 0"
  by (simp add: cmdtool_runCommand_def os_Exit_def)

text \<open>
  Claim C9 as amended: when the tool receives a \<open>CommandTermination\<close> after messages
  \<open>xs\<close> (none of them a termination), it calls \<open>os.Exit\<close> with the exit code of that
  frame, read as a signed number, so the process exits with that code modulo 256, which
  is the code itself when it is from 0 to 255. Before that it has written the body of
  each \<open>CommandData\<close> frame of \<open>xs\<close>, in order, to standard output when the channel is
  STDOUT and to standard error otherwise, and last the message of the termination and a
  newline to standard error when the message is not empty.
\<close>

theorem cmdtool_exit_status_is_code_mod_256:
  assumes "\<forall>x\<in>set xs. \<not> isToolTermination x"
  shows "snd (cmdtool_runCommand None None
           (map Received xs @ Received (ControllerToCmdToolWrapper_CommandTermination t) # rest))
           = Some (sint (ctExitCode t) mod 256)
       \<and> (0 \<le> sint (ctExitCode t) \<and> sint (ctExitCode t) \<le> 255 \<longrightarrow>
            snd (cmdtool_runCommand None None
              (map Received xs @ Received (ControllerToCmdToolWrapper_CommandTermination t) # rest))
              = Some (sint (ctExitCode t)))
       \<and> fst (cmdtool_runCommand None None
           (map Received xs @ Received (ControllerToCmdToolWrapper_CommandTermination t) # rest))
           = map (\<lambda>d. if ctChannel d = STDOUT then ToStdout (ctBody d) else ToStderr (ctBody d))
               (dataFrames xs)
             @ (if length (ctMessage t) > 0 then [ToStderr (ctMessage t @ [CHR 0x0A])] else [])
       \<and> stdoutOf (fst (cmdtool_runCommand None None
           (map Received xs @ Received (ControllerToCmdToolWrapper_CommandTermination t) # rest)))
           = concat (map ctBody (filter (\<lambda>d. ctChannel d = STDOUT) (dataFrames xs)))
       \<and> stderrOf (fst (cmdtool_runCommand None None
           (map Received xs @ Received (ControllerToCmdToolWrapper_CommandTermination t) # rest)))
           = concat (map ctBody (filter (\<lambda>d. ctChannel d \<noteq> STDOUT) (dataFrames xs)))
             @ (if length (ctMessage t) > 0 then ctMessage t @ [CHR 0x0A] else [])"
  using cmdtool_receive_data [OF assms,
      of "Received (ControllerToCmdToolWrapper_CommandTermination t) # rest"]
  by (simp add: cmdtool_runCommand_def os_Exit_def stdoutOf_append stderrOf_append
      stdoutOf_data stderrOf_data)

theorem cmdtool_exit_status_is_code_mod_256_witness:
  "\<not> isToolTermination (ControllerToCmdToolWrapper_CommandData
          \<lparr>ctBody = ''hi'', ctChannel = STDOUT, ctClosed = False\<rparr>)
   \<and> \<not> isToolTermination (ControllerToCmdToolWrapper_CommandData
          \<lparr>ctBody = ''warn'', ctChannel = STDERR, ctClosed = False\<rparr>)
   \<and> 0 \<le> sint (ctExitCode \<lparr>ctExitCode = 3, ctMessage = ''boom''\<rparr>)
   \<and> sint (ctExitCode \<lparr>ctExitCode = 3, ctMessage = ''boom''\<rparr>) \<le> 255
   \<and> cmdtool_runCommand None None
       [Received (ControllerToCmdToolWrapper_CommandData
          \<lparr>ctBody = ''hi'', ctChannel = STDOUT, ctClosed = False\<rparr>),
        Received (ControllerToCmdToolWrapper_CommandData
          \<lparr>ctBody = ''warn'', ctChannel = STDERR, ctClosed = False\<rparr>),
        Received (ControllerToCmdToolWrapper_CommandTermination
          \<lparr>ctExitCode = 3, ctMessage = ''boom''\<rparr>),
        StreamEOF] =
      ([ToStdout ''hi'', ToStderr ''warn'', ToStderr (''boom'' @ [CHR 0x0A])], Some 3)"
  using cmdtool_exit_status_is_code_mod_256 [of "[ControllerToCmdToolWrapper_CommandData
          \<lparr>ctBody = ''hi'', ctChannel = STDOUT, ctClosed = False\<rparr>,
        ControllerToCmdToolWrapper_CommandData
          \<lparr>ctBody = ''warn'', ctChannel = STDERR, ctClosed = False\<rparr>]"
        "\<lparr>ctExitCode = 3, ctMessage = ''boom''\<rparr>" "[StreamEOF]"]
  by (simp add: cmdtool_runCommand_def os_Exit_def)

end
